theory Spec2Isabelle
  imports
    Main
    "HOL-Library.Multiset"
    "HOL-Library.Char_ord"
    "HOL-Library.List_Lexorder"
begin

section \<open>Lunaria: the status computation of \<open>LunariaInstance\<close>\<close>

text \<open>
  The development embeds the three methods of \<open>LunariaInstance\<close> that compute the
  localization status: \<open>findFileConfig\<close>, \<open>getFileStatus\<close> and \<open>getFullStatus\<close>.
  Everything these methods import from other modules (the path resolver, the git
  instance, the eligibility check, the dictionary check, the error constants) and from
  the platform (\<open>glob\<close>, \<open>existsSync\<close>, \<open>resolve\<close>, \<open>Date\<close>) is a field of the record
  \<open>env\<close>: the methods are verified for every implementation of these collaborators.
\<close>

subsection \<open>Configuration\<close>

type_synonym path = string

text \<open>\<open>Pattern\<close> is only handed to \<open>createPathResolver\<close>; it is kept as a string.\<close>

type_synonym pattern = string

text \<open>One entry of \<open>config.files\<close>. \<open>optionalKeys\<close> is an optional property.\<close>

record file_config =
  "include" :: "string list"
  exclude :: "string list"
  pattern :: pattern
  type :: string
  optionalKeys :: "string list option"

record lunaria_locale =
  label :: string
  lang :: string

record tracking_config =
  localizableProperty :: "string option"

record lunaria_config =
  sourceLocale :: lunaria_locale
  locales :: "lunaria_locale list"
  files :: "file_config list"
  tracking :: tracking_config

subsection \<open>Status values\<close>

text \<open>
  The value returned by \<open>git.getFileLatestChanges\<close>. The code reads
  \<open>latestTrackedChange.date\<close> only; further properties live in the records' extension
  slots.
\<close>

record tracked_change =
  date :: string

record file_changes =
  latestTrackedChange :: tracked_change

datatype status = Missing | Outdated | UpToDate

text \<open>
  \<open>StatusLocalizationEntry\<close>: the object literal of the \<open>missing\<close> branch has neither
  \<open>git\<close> nor \<open>missingKeys\<close>; the other literal always has \<open>git\<close>, and has
  \<open>missingKeys\<close> when \<open>entryTypeData()\<close> spreads it in. An absent property is \<open>None\<close>.
\<close>

record status_localization =
  lang :: string
  path :: path
  git :: "file_changes option"
  status :: status
  missingKeys :: "string list option"

record status_source =
  lang :: string
  path :: path
  git :: file_changes

text \<open>
  The object returned by \<open>getFileStatus\<close> is \<open>{...fileConfig, source, localizations}\<close>:
  the record of the file configuration, extended by two fields.
\<close>

record status_entry = file_config +
  source :: status_source
  localizations :: "status_localization list"

subsection \<open>Collaborators\<close>

text \<open>The object returned by \<open>createPathResolver\<close>.\<close>

record path_resolver =
  isSourcePathMatch :: "path \<Rightarrow> bool"
  isLocalesPathMatch :: "path \<Rightarrow> bool"
  toPath :: "path \<Rightarrow> string \<Rightarrow> path"

text \<open>What a \<open>catch (e)\<close> clause receives: an \<open>Error\<close> with its message, or any other value.\<close>

datatype thrown = ThrownError string | ThrownOther

text \<open>
  \<^item> \<open>isFileLocalizable\<close> returns an \<open>Error\<close> (\<open>Inl\<close> of its message) or another value;
  \<^item> \<open>getDictionaryCompletion\<close> returns the missing keys or throws (\<open>Inl\<close>);
  \<^item> \<open>Date\<close> is the time value of \<open>new Date(s)\<close>, \<open>None\<close> for an invalid date (NaN);
  \<^item> \<open>FileConfigNotFound_message\<close> is the constant \<open>FileConfigNotFound.message\<close>.
\<close>

record env =
  createPathResolver :: "pattern \<Rightarrow> lunaria_locale \<Rightarrow> lunaria_locale list \<Rightarrow> path_resolver"
  isFileLocalizable :: "path \<Rightarrow> string option \<Rightarrow> string + bool"
  getDictionaryCompletion :: "string list option \<Rightarrow> path \<Rightarrow> path \<Rightarrow> thrown + string list"
  getFileLatestChanges :: "path \<Rightarrow> file_changes"
  existsSync :: "path \<Rightarrow> bool"
  resolve :: "path \<Rightarrow> path"
  glob :: "string list \<Rightarrow> string list \<Rightarrow> path list"
  Date :: "string \<Rightarrow> int option"
  FileConfigNotFound_message :: string

subsection \<open>Effects\<close>

text \<open>
  What \<open>getFileStatus\<close> does besides returning: calls of \<open>logger.error\<close> and of
  \<open>git.getFileLatestChanges\<close>, in the order in which they are made, and \<open>process.exit\<close>,
  which ends the run instead of returning.
\<close>

datatype event = LogError string | GitLatestChanges path

datatype 'a outcome = Returned 'a | Exited int

text \<open>\<open>a > b\<close> on two \<open>Date\<close> objects compares their time values; with a NaN it is false.\<close>

fun date_gt :: "int option \<Rightarrow> int option \<Rightarrow> bool" where
  "date_gt (Some a) (Some b) = (a > b)"
| "date_gt _ _ = False"

subsection \<open>\<open>getPathResolver\<close> and \<open>findFileConfig\<close>\<close>

definition getPathResolver :: "env \<Rightarrow> lunaria_config \<Rightarrow> pattern \<Rightarrow> path_resolver" where
  "getPathResolver env config pat =
     createPathResolver env pat (sourceLocale config) (locales config)"

definition matchesFile :: "env \<Rightarrow> lunaria_config \<Rightarrow> path \<Rightarrow> file_config \<Rightarrow> bool" where
  "matchesFile env config p file =
     (let r = getPathResolver env config (pattern file)
      in isSourcePathMatch r p \<or> isLocalesPathMatch r p)"

text \<open>\<open>Array.prototype.find\<close>: the first element satisfying the predicate, or \<open>undefined\<close>.\<close>

definition findFileConfig :: "env \<Rightarrow> lunaria_config \<Rightarrow> path \<Rightarrow> file_config option" where
  "findFileConfig env config p = find (matchesFile env config p) (files config)"

subsection \<open>\<open>getFileStatus\<close>\<close>

text \<open>The closure \<open>entryTypeData\<close>: the properties spread into the entry, or the exit.\<close>

definition entryTypeData ::
  "env \<Rightarrow> file_config \<Rightarrow> path \<Rightarrow> path \<Rightarrow> event list \<times> string list option outcome" where
  "entryTypeData env fileConfig sourcePath localizedPath =
     (if type fileConfig = ''dictionary'' then
        (case getDictionaryCompletion env (optionalKeys fileConfig) sourcePath localizedPath of
           Inr keys \<Rightarrow> ([], Returned (Some keys))
         | Inl (ThrownError message) \<Rightarrow> ([LogError message], Exited 1)
         | Inl ThrownOther \<Rightarrow> ([], Exited 1))
      else ([], Returned None))"

text \<open>
  The callback mapped over \<open>config.locales\<close>, from the point where its
  \<open>await this.#git.getFileLatestChanges(localizedPath)\<close> resumes.
\<close>

definition localization ::
  "env \<Rightarrow> file_config \<Rightarrow> path_resolver \<Rightarrow> path \<Rightarrow> path \<Rightarrow> file_changes \<Rightarrow> lunaria_locale
     \<Rightarrow> event list \<times> status_localization outcome" where
  "localization env fileConfig r p sourcePath latestSourceChanges l =
     (let localizedPath = toPath r p (lunaria_locale.lang l);
          latestLocaleChanges = getFileLatestChanges env localizedPath;
          isOutdated = date_gt (Date env (date (latestTrackedChange latestSourceChanges)))
                               (Date env (date (latestTrackedChange latestLocaleChanges)))
      in if \<not> existsSync env (resolve env localizedPath) then
           ([], Returned \<lparr>status_localization.lang = lunaria_locale.lang l,
                          path = localizedPath, git = None, status = Missing,
                          missingKeys = None\<rparr>)
         else
           (case entryTypeData env fileConfig sourcePath localizedPath of
              (evs, Exited c) \<Rightarrow> (evs, Exited c)
            | (evs, Returned keys) \<Rightarrow>
                (evs, Returned \<lparr>status_localization.lang = lunaria_locale.lang l,
                                 path = localizedPath, git = Some latestLocaleChanges,
                                 status = (if isOutdated then Outdated else UpToDate),
                                 missingKeys = keys\<rparr>)))"

text \<open>
  \<open>Promise.all\<close> over the callbacks of \<open>locales.map\<close>. Every callback is suspended at
  its \<open>await\<close> and resumes when its own lookup has resolved, at a moment that depends on
  the timing of the git processes; once resumed it runs to its \<open>return\<close> or to
  \<open>process.exit\<close> without another \<open>await\<close>. \<open>resumeAll\<close> takes the resumed callbacks
  in the order in which they resume: their events up to the first exit, and the exit
  code if one of them exits.
\<close>

fun resumeAll :: "(event list \<times> 'a outcome) list \<Rightarrow> event list \<times> int option" where
  "resumeAll [] = ([], None)"
| "resumeAll ((evs, Exited c) # rest) = (evs, Some c)"
| "resumeAll ((evs, Returned x) # rest) =
     (case resumeAll rest of (evs', exit) \<Rightarrow> (evs @ evs', exit))"

text \<open>The values of the callbacks that returned, in array order.\<close>

fun fulfilled :: "(event list \<times> 'a outcome) list \<Rightarrow> 'a list" where
  "fulfilled [] = []"
| "fulfilled ((evs, Returned x) # rest) = x # fulfilled rest"
| "fulfilled ((evs, Exited c) # rest) = fulfilled rest"

text \<open>
  The moments at which the lookups resolve are a parameter: \<open>resolvedAt l\<close> is the
  moment for the callback of \<open>l\<close>. The callbacks resume in the order of these moments,
  and in array order where the moments are equal (\<open>sort_key\<close> is a stable sort).
  Unless a callback exits, \<open>Promise.all\<close> gives the values in array order, whatever the
  order in which the callbacks resumed.
\<close>

definition awaitAll ::
  "('l \<Rightarrow> nat) \<Rightarrow> ('l \<Rightarrow> event list \<times> 'a outcome) \<Rightarrow> 'l list \<Rightarrow> event list \<times> 'a list outcome" where
  "awaitAll resolvedAt callback ls =
     (case resumeAll (map callback (sort_key resolvedAt ls)) of
        (evs, Some c) \<Rightarrow> (evs, Exited c)
      | (evs, None) \<Rightarrow> (evs, Returned (fulfilled (map callback ls))))"

text \<open>
  \<open>getFileStatus\<close>. \<open>Returned None\<close> is \<open>return undefined\<close>. \<open>locales.map\<close> runs every
  async callback up to its first \<open>await\<close> before any of them resumes, so the lookups of
  all localized paths are made, in array order, right after the lookup of the source
  path. \<open>resolvedAt\<close> gives the moments at which these lookups resolve.
\<close>

definition getFileStatus ::
  "env \<Rightarrow> lunaria_config \<Rightarrow> (lunaria_locale \<Rightarrow> nat) \<Rightarrow> path
     \<Rightarrow> event list \<times> status_entry option outcome" where
  "getFileStatus env config resolvedAt p =
     (case findFileConfig env config p of
        None \<Rightarrow> ([LogError (FileConfigNotFound_message env)], Returned None)
      | Some fileConfig \<Rightarrow>
          (let r = getPathResolver env config (pattern fileConfig);
               sourcePath = (if isSourcePathMatch r p then p
                             else toPath r p (lunaria_locale.lang (sourceLocale config)))
           in case isFileLocalizable env p (localizableProperty (tracking config)) of
                Inl message \<Rightarrow> ([LogError message], Returned None)
              | Inr isLocalizable \<Rightarrow>
                  (let latestSourceChanges = getFileLatestChanges env sourcePath;
                       issued = map (\<lambda>l. GitLatestChanges (toPath r p (lunaria_locale.lang l)))
                                  (locales config);
                       resumed = awaitAll resolvedAt
                         (localization env fileConfig r p sourcePath latestSourceChanges)
                         (locales config)
                   in (GitLatestChanges sourcePath # issued @ fst resumed,
                       case snd resumed of
                         Exited c \<Rightarrow> Exited c
                       | Returned ls \<Rightarrow>
                           Returned (Some (file_config.extend fileConfig
                             (status_entry.fields
                                \<lparr>status_source.lang = lunaria_locale.lang (sourceLocale config),
                                 path = sourcePath, git = latestSourceChanges\<rparr>
                                ls)))))))"

subsection \<open>\<open>getFullStatus\<close>\<close>

text \<open>
  The globbed paths of one \<open>files\<close> entry that pass the \<open>filter\<close>, and those that do
  not. The second list is what the warning of \<open>getFullStatus\<close> reports, when it is not
  empty; neither that warning nor the \<open>logger.trace\<close> call changes the report, and they
  are not recorded as events.
\<close>

definition sourceFilePaths :: "env \<Rightarrow> lunaria_config \<Rightarrow> file_config \<Rightarrow> path list" where
  "sourceFilePaths env config file =
     filter (isSourcePathMatch (getPathResolver env config (pattern file)))
       (glob env (include file) (exclude file))"

definition filteredOutPaths :: "env \<Rightarrow> lunaria_config \<Rightarrow> file_config \<Rightarrow> path list" where
  "filteredOutPaths env config file =
     filter (\<lambda>p. \<not> isSourcePathMatch (getPathResolver env config (pattern file)) p)
       (glob env (include file) (exclude file))"

text \<open>
  The callbacks of \<open>Promise.all(sourceFilePaths.sort().map(async (path) => ...))\<close> each
  run \<open>status.push(fileStatus)\<close> when their own \<open>getFileStatus\<close> has finished, if it
  returned a file status. \<open>pushAll\<close> takes the paths in the order in which their
  callbacks finish; a callback that exits the process ends the run. \<open>resolvedAt p\<close>
  gives the moments at which the lookups made for the path \<open>p\<close> resolve.
\<close>

fun pushAll ::
  "env \<Rightarrow> lunaria_config \<Rightarrow> (path \<Rightarrow> lunaria_locale \<Rightarrow> nat) \<Rightarrow> path list \<Rightarrow> status_entry list
     \<Rightarrow> status_entry list outcome" where
  "pushAll env config resolvedAt [] report = Returned report"
| "pushAll env config resolvedAt (p # ps) report =
     (case snd (getFileStatus env config (resolvedAt p) p) of
        Exited c \<Rightarrow> Exited c
      | Returned None \<Rightarrow> pushAll env config resolvedAt ps report
      | Returned (Some fileStatus) \<Rightarrow> pushAll env config resolvedAt ps (report @ [fileStatus]))"

text \<open>
  The order in which the callbacks of one \<open>Promise.all\<close> finish depends on the timing of
  the git processes. It is a parameter of the run: \<open>completion g xs\<close> is the order in
  which the callbacks dispatched for the paths \<open>xs\<close> of the \<open>g\<close>-th \<open>files\<close> entry finish.
  Every callback finishes once.
\<close>

type_synonym completion = "nat \<Rightarrow> path list \<Rightarrow> path list"

definition completes :: "completion \<Rightarrow> bool" where
  "completes completion = (\<forall>g xs. mset (completion g xs) = mset xs)"

text \<open>
  The \<open>for (const file of files)\<close> loop; \<open>g\<close> counts the entries already processed.
  Each \<open>Promise.all\<close> is awaited before the next entry is processed. \<open>sort()\<close> without
  a comparison function orders strings by their character codes, as \<open>sort\<close> does on
  \<open>string\<close>.
\<close>

fun processFiles ::
  "env \<Rightarrow> lunaria_config \<Rightarrow> completion \<Rightarrow> (path \<Rightarrow> lunaria_locale \<Rightarrow> nat) \<Rightarrow> nat
     \<Rightarrow> file_config list \<Rightarrow> status_entry list \<Rightarrow> status_entry list outcome" where
  "processFiles env config completion resolvedAt g [] report = Returned report"
| "processFiles env config completion resolvedAt g (file # rest) report =
     (case pushAll env config resolvedAt
             (completion g (sort (sourceFilePaths env config file))) report of
        Exited c \<Rightarrow> Exited c
      | Returned pushed \<Rightarrow> processFiles env config completion resolvedAt (Suc g) rest pushed)"

definition getFullStatus ::
  "env \<Rightarrow> lunaria_config \<Rightarrow> completion \<Rightarrow> (path \<Rightarrow> lunaria_locale \<Rightarrow> nat)
     \<Rightarrow> status_entry list outcome" where
  "getFullStatus env config completion resolvedAt =
     processFiles env config completion resolvedAt 0 (files config) []"

subsection \<open>Vocabulary of the statements\<close>

text \<open>
  The two paths that \<open>getFileStatus\<close> computes from the path it is given and from the
  matched \<open>files\<close> entry: the constant \<open>sourcePath\<close> and, for a locale, \<open>localizedPath\<close>.
\<close>

definition sourcePathOf :: "env \<Rightarrow> lunaria_config \<Rightarrow> file_config \<Rightarrow> path \<Rightarrow> path" where
  "sourcePathOf env config fileConfig p =
     (let r = getPathResolver env config (pattern fileConfig)
      in if isSourcePathMatch r p then p
         else toPath r p (lunaria_locale.lang (sourceLocale config)))"

definition localizedPathOf :: "env \<Rightarrow> lunaria_config \<Rightarrow> file_config \<Rightarrow> path \<Rightarrow> lunaria_locale \<Rightarrow> path" where
  "localizedPathOf env config fileConfig p l =
     toPath (getPathResolver env config (pattern fileConfig)) p (lunaria_locale.lang l)"

text \<open>The paths for which \<open>git.getFileLatestChanges\<close> was called, in call order.\<close>

fun lookups :: "event list \<Rightarrow> path list" where
  "lookups [] = []"
| "lookups (GitLatestChanges p # evs) = p # lookups evs"
| "lookups (LogError m # evs) = lookups evs"

text \<open>
  What a path contributes to the report, and whether its evaluation ends the process.
\<close>

definition fileStatusOf ::
  "env \<Rightarrow> lunaria_config \<Rightarrow> (path \<Rightarrow> lunaria_locale \<Rightarrow> nat) \<Rightarrow> path \<Rightarrow> status_entry option" where
  "fileStatusOf env config resolvedAt p =
     (case snd (getFileStatus env config (resolvedAt p) p) of Returned fileStatus \<Rightarrow> fileStatus | Exited c \<Rightarrow> None)"

definition exits ::
  "env \<Rightarrow> lunaria_config \<Rightarrow> (path \<Rightarrow> lunaria_locale \<Rightarrow> nat) \<Rightarrow> path \<Rightarrow> bool" where
  "exits env config resolvedAt p = (case snd (getFileStatus env config (resolvedAt p) p) of Returned fileStatus \<Rightarrow> False | Exited c \<Rightarrow> True)"

text \<open>The source paths of the entries of a report, in report order.\<close>

fun sourcePaths :: "status_entry list outcome \<Rightarrow> path list option" where
  "sourcePaths (Returned report) = Some (map (\<lambda>e. status_source.path (source e)) report)"
| "sourcePaths (Exited c) = None"

text \<open>
  The entries pushed while the \<open>files\<close> entries \<open>fs\<close>, numbered from \<open>g\<close>, are
  processed: for each entry, what its paths contribute, in the order in which their
  callbacks finish.
\<close>

definition reported ::
  "env \<Rightarrow> lunaria_config \<Rightarrow> completion \<Rightarrow> (path \<Rightarrow> lunaria_locale \<Rightarrow> nat) \<Rightarrow> nat
     \<Rightarrow> file_config list \<Rightarrow> status_entry list" where
  "reported env config completion resolvedAt g fs =
     concat (map (\<lambda>(i, file). List.map_filter (fileStatusOf env config resolvedAt)
                    (completion i (sort (sourceFilePaths env config file))))
              (enumerate g fs))"

subsection \<open>A small repository\<close>

text \<open>
  A concrete instance of the collaborators, to run the methods on: a path is
  \<open><lang>/<rest>\<close>, a pattern names the file extension of its files, the repository
  root is \<open>/repo\<close>, and \<open>glob\<close> returns the listed paths that are not excluded.
  \<open>Date\<close> gives the three date strings that occur the time values that \<open>new Date\<close>
  gives them (milliseconds since 1970), and is invalid elsewhere.
\<close>

definition example_createPathResolver ::
  "pattern \<Rightarrow> lunaria_locale \<Rightarrow> lunaria_locale list \<Rightarrow> path_resolver" where
  "example_createPathResolver pat src locs =
     \<lparr>isSourcePathMatch = (\<lambda>p. takeWhile (\<lambda>c. c \<noteq> CHR ''/'') p = lunaria_locale.lang src
                                \<and> drop (length p - length pat) p = pat),
      isLocalesPathMatch = (\<lambda>p. takeWhile (\<lambda>c. c \<noteq> CHR ''/'') p \<in> set (map lunaria_locale.lang locs)
                                \<and> drop (length p - length pat) p = pat),
      toPath = (\<lambda>p l. l @ dropWhile (\<lambda>c. c \<noteq> CHR ''/'') p)\<rparr>"

definition example_env :: env where
  "example_env =
     \<lparr>createPathResolver = example_createPathResolver,
      isFileLocalizable = (\<lambda>p prop. if p = ''en/draft.md'' then Inl ''not localizable'' else Inr True),
      getDictionaryCompletion =
        (\<lambda>keys sp lp. if lp = ''fr/broken.json'' then Inl (ThrownError ''invalid dictionary'')
                       else if lp = ''fr/bad.json'' then Inl (ThrownError ''bad fr'')
                       else if lp = ''de/bad.json'' then Inl (ThrownError ''bad de'')
                       else Inr [''title'']),
      getFileLatestChanges =
        (\<lambda>p. \<lparr>latestTrackedChange =
                \<lparr>date = (if p = ''en/a.md'' then ''2024-02-01T00:00:00.000Z''
                          else if p = ''fr/b.md'' then ''2024-03-01T00:00:00.000Z''
                          else ''2024-01-01T00:00:00.000Z'')\<rparr>\<rparr>),
      existsSync = (\<lambda>p. p \<in> set [''/repo/en/a.md'', ''/repo/en/b.md'', ''/repo/fr/b.md'',
                                    ''/repo/de/a.md'', ''/repo/en/draft.md'',
                                    ''/repo/en/ui.json'', ''/repo/de/ui.json'',
                                    ''/repo/en/broken.json'', ''/repo/de/broken.json'',
                                    ''/repo/fr/broken.json'', ''/repo/en/bad.json'',
                                    ''/repo/de/bad.json'', ''/repo/fr/bad.json'']),
      resolve = (\<lambda>p. ''/repo/'' @ p),
      glob = (\<lambda>inc exc. filter (\<lambda>p. p \<notin> set exc) inc),
      Date = (\<lambda>s. if s = ''2024-01-01T00:00:00.000Z'' then Some 1704067200000
                   else if s = ''2024-02-01T00:00:00.000Z'' then Some 1706745600000
                   else if s = ''2024-03-01T00:00:00.000Z'' then Some 1709251200000
                   else None),
      FileConfigNotFound_message = ''no files entry matches the path''\<rparr>"

definition example_md :: file_config where
  "example_md = \<lparr>include = [''en/b.md'', ''en/a.md''], exclude = [], pattern = ''.md'',
                  type = ''universal'', optionalKeys = None\<rparr>"

definition example_json :: file_config where
  "example_json = \<lparr>include = [''en/ui.json''], exclude = [], pattern = ''.json'',
                    type = ''dictionary'', optionalKeys = Some [''footer'']\<rparr>"

definition example_config :: lunaria_config where
  "example_config =
     \<lparr>sourceLocale = \<lparr>label = ''English'', lang = ''en''\<rparr>,
      locales = [\<lparr>label = ''French'', lang = ''fr''\<rparr>, \<lparr>label = ''German'', lang = ''de''\<rparr>],
      files = [example_md, example_json],
      tracking = \<lparr>localizableProperty = Some ''i18nReady''\<rparr>\<rparr>"

definition example_a_status :: status_entry where
  "example_a_status =
     \<lparr>include = [''en/b.md'', ''en/a.md''], exclude = [], pattern = ''.md'',
      type = ''universal'', optionalKeys = None,
      source = \<lparr>status_source.lang = ''en'', path = ''en/a.md'',
                 git = \<lparr>latestTrackedChange = \<lparr>date = ''2024-02-01T00:00:00.000Z''\<rparr>\<rparr>\<rparr>,
      localizations =
        [\<lparr>status_localization.lang = ''fr'', path = ''fr/a.md'', git = None,
          status = Missing, missingKeys = None\<rparr>,
         \<lparr>status_localization.lang = ''de'', path = ''de/a.md'',
          git = Some \<lparr>latestTrackedChange = \<lparr>date = ''2024-01-01T00:00:00.000Z''\<rparr>\<rparr>,
          status = Outdated, missingKeys = None\<rparr>]\<rparr>"

definition example_ui_status :: status_entry where
  "example_ui_status =
     \<lparr>include = [''en/ui.json''], exclude = [], pattern = ''.json'',
      type = ''dictionary'', optionalKeys = Some [''footer''],
      source = \<lparr>status_source.lang = ''en'', path = ''en/ui.json'',
                 git = \<lparr>latestTrackedChange = \<lparr>date = ''2024-01-01T00:00:00.000Z''\<rparr>\<rparr>\<rparr>,
      localizations =
        [\<lparr>status_localization.lang = ''fr'', path = ''fr/ui.json'', git = None,
          status = Missing, missingKeys = None\<rparr>,
         \<lparr>status_localization.lang = ''de'', path = ''de/ui.json'',
          git = Some \<lparr>latestTrackedChange = \<lparr>date = ''2024-01-01T00:00:00.000Z''\<rparr>\<rparr>,
          status = UpToDate, missingKeys = Some [''title'']\<rparr>]\<rparr>"

text \<open>
  Two \<open>files\<close> entries whose \<open>include\<close> lists overlap; a dictionary entry with a
  localized file that does not parse; and two completion orders: the callbacks finish
  in the order in which they were dispatched, or in the opposite order.
\<close>

definition example_overlap_config :: lunaria_config where
  "example_overlap_config =
     example_config\<lparr>files := [example_md, example_md\<lparr>include := [''en/a.md'']\<rparr>]\<rparr>"

definition example_broken_json :: file_config where
  "example_broken_json =
     example_json\<lparr>include := [''en/ui.json'', ''en/broken.json'', ''en/bad.json'']\<rparr>"

definition example_broken_config :: lunaria_config where
  "example_broken_config =
     example_config\<lparr>locales := [\<lparr>label = ''German'', lang = ''de''\<rparr>, \<lparr>label = ''French'', lang = ''fr''\<rparr>],
                     files := [example_md, example_broken_json]\<rparr>"

text \<open>
  All lookups of a call resolve at the same moment, so that the callbacks resume in
  array order; and the lookup of the French path resolves before the others.
\<close>

definition at_once :: "lunaria_locale \<Rightarrow> nat" where
  "at_once l = 0"

definition all_at_once :: "path \<Rightarrow> lunaria_locale \<Rightarrow> nat" where
  "all_at_once p = at_once"

definition french_first :: "lunaria_locale \<Rightarrow> nat" where
  "french_first l = (if lunaria_locale.lang l = ''fr'' then 0 else 1)"

definition all_french_first :: "path \<Rightarrow> lunaria_locale \<Rightarrow> nat" where
  "all_french_first p = french_first"

definition dispatch_order :: completion where
  "dispatch_order g xs = xs"

definition reverse_order :: completion where
  "reverse_order g xs = rev xs"

section \<open>Properties\<close>

subsection \<open>Auxiliary facts\<close>

lemmas example_defs = example_env_def example_config_def example_md_def example_json_def
  example_createPathResolver_def

lemma lookups_append: "lookups (xs @ ys) = lookups xs @ lookups ys"
  by (induction xs rule: lookups.induct) simp_all

lemma lookups_map_Git: "lookups (map (\<lambda>x. GitLatestChanges (f x)) xs) = map f xs"
  by (induction xs) simp_all

lemma snd_resumeAll_Cons:
  "snd (resumeAll ((evs, out) # rest)) =
     (case out of Exited c \<Rightarrow> Some c | Returned x \<Rightarrow> snd (resumeAll rest))"
  by (cases out; cases "resumeAll rest") simp_all

lemma fst_resumeAll_Cons:
  "fst (resumeAll ((evs, out) # rest)) =
     (case out of Exited c \<Rightarrow> evs | Returned x \<Rightarrow> evs @ fst (resumeAll rest))"
  by (cases out; cases "resumeAll rest") simp_all

lemma resumeAll_None_iff:
  "snd (resumeAll xs) = None \<longleftrightarrow> (\<forall>x \<in> set xs. \<exists>y. snd x = Returned y)"
proof (induction xs)
  case Nil
  show ?case by simp
next
  case (Cons a xs)
  obtain evs out where a: "a = (evs, out)" by (cases a)
  have "snd (resumeAll (a # xs)) =
      (case out of Exited c \<Rightarrow> Some c | Returned x \<Rightarrow> snd (resumeAll xs))"
    unfolding a by (rule snd_resumeAll_Cons)
  then show ?case using Cons.IH by (cases out) (simp_all add: a del: resumeAll.simps)
qed

lemma resumeAll_Some:
  "snd (resumeAll xs) = Some c \<Longrightarrow> \<exists>x \<in> set xs. snd x = Exited c"
proof (induction xs)
  case Nil
  then show ?case by simp
next
  case (Cons a xs)
  obtain evs out where a: "a = (evs, out)" by (cases a)
  have "snd (resumeAll (a # xs)) =
      (case out of Exited c \<Rightarrow> Some c | Returned x \<Rightarrow> snd (resumeAll xs))"
    unfolding a by (rule snd_resumeAll_Cons)
  with Cons.prems have "(case out of Exited c' \<Rightarrow> Some c' | Returned x \<Rightarrow> snd (resumeAll xs)) = Some c"
    by simp
  then show ?case using Cons.IH by (cases out) (auto simp: a)
qed

lemma fulfilled_all:
  "(\<forall>x \<in> set xs. \<exists>y. snd x = Returned y) \<Longrightarrow> map snd xs = map Returned (fulfilled xs)"
proof (induction xs)
  case Nil
  show ?case by simp
next
  case (Cons a xs)
  obtain evs out where a: "a = (evs, out)" by (cases a)
  from Cons.prems obtain y where "out = Returned y" by (auto simp: a)
  then show ?case using Cons by (simp add: a)
qed

lemma fst_awaitAll:
  "fst (awaitAll t callback ls) = fst (resumeAll (map callback (sort_key t ls)))"
  by (simp add: awaitAll_def split: prod.splits option.splits)

lemma snd_awaitAll:
  "snd (awaitAll t callback ls) =
     (case snd (resumeAll (map callback (sort_key t ls))) of
        Some c \<Rightarrow> Exited c
      | None \<Rightarrow> Returned (fulfilled (map callback ls)))"
  by (simp add: awaitAll_def split: prod.splits option.splits)

lemma awaitAll_Exited:
  assumes "snd (awaitAll t callback ls) = Exited c"
  shows "\<exists>l \<in> set ls. snd (callback l) = Exited c"
proof -
  from assms have "snd (resumeAll (map callback (sort_key t ls))) = Some c"
    by (simp add: snd_awaitAll split: option.splits)
  from resumeAll_Some[OF this] show ?thesis by auto
qed

lemma awaitAll_Returned_iff:
  "snd (awaitAll t callback ls) = Returned ys \<longleftrightarrow>
     map (\<lambda>l. snd (callback l)) ls = map Returned ys"
proof (cases "snd (resumeAll (map callback (sort_key t ls)))")
  case None
  then have "\<forall>x \<in> set (map callback (sort_key t ls)). \<exists>y. snd x = Returned y"
    by (simp only: resumeAll_None_iff)
  then have "\<forall>x \<in> set (map callback ls). \<exists>y. snd x = Returned y" by simp
  then have "map snd (map callback ls) = map Returned (fulfilled (map callback ls))"
    by (rule fulfilled_all)
  then have m: "map (\<lambda>l. snd (callback l)) ls = map Returned (fulfilled (map callback ls))"
    by (simp add: comp_def)
  have i: "inj Returned" by (simp add: inj_on_def)
  have r: "snd (awaitAll t callback ls) = Returned (fulfilled (map callback ls))"
    using None by (simp add: snd_awaitAll)
  show ?thesis unfolding r m using inj_map_eq_map[OF i] by auto
next
  case (Some c)
  then have r: "snd (awaitAll t callback ls) = Exited c" by (simp add: snd_awaitAll)
  from awaitAll_Exited[OF r] obtain l where l: "l \<in> set ls" "snd (callback l) = Exited c"
    by blast
  have "map (\<lambda>l. snd (callback l)) ls \<noteq> map Returned ys"
  proof
    assume e: "map (\<lambda>l. snd (callback l)) ls = map Returned ys"
    from l have "Exited c \<in> set (map (\<lambda>l. snd (callback l)) ls)" by force
    then have "Exited c \<in> set (map Returned ys)" unfolding e .
    then show False by auto
  qed
  then show ?thesis using r by simp
qed

lemma entryTypeData_lookups: "lookups (fst (entryTypeData env fc sp lp)) = []"
  by (simp add: entryTypeData_def split: sum.splits thrown.splits)

lemma fst_localization:
  "fst (localization env fc r p sp ch l) =
     (if existsSync env (resolve env (toPath r p (lunaria_locale.lang l)))
      then fst (entryTypeData env fc sp (toPath r p (lunaria_locale.lang l))) else [])"
  by (simp add: localization_def Let_def split: prod.splits outcome.splits)

lemma localization_lookups: "lookups (fst (localization env fc r p sp ch l)) = []"
  by (simp add: fst_localization entryTypeData_lookups)

lemma resumeAll_lookups:
  "(\<And>x. x \<in> set xs \<Longrightarrow> lookups (fst x) = []) \<Longrightarrow> lookups (fst (resumeAll xs)) = []"
proof (induction xs)
  case Nil
  show ?case by simp
next
  case (Cons a xs)
  obtain evs out where a: "a = (evs, out)" by (cases a)
  have e: "lookups evs = []" using Cons.prems[of a] by (simp add: a)
  have r: "lookups (fst (resumeAll xs)) = []" using Cons by simp
  show ?case unfolding a fst_resumeAll_Cons using e r
    by (cases out) (simp_all add: lookups_append)
qed

lemma lookups_resumed:
  "lookups (fst (awaitAll t (localization env fc r p sp ch) ls)) = []"
  unfolding fst_awaitAll by (rule resumeAll_lookups) (auto simp: localization_lookups)

lemma getFileStatus_found:
  assumes "findFileConfig env config p = Some fc"
    and "isFileLocalizable env p (localizableProperty (tracking config)) = Inr b"
  shows "getFileStatus env config t p =
    (let r = getPathResolver env config (pattern fc);
         sp = sourcePathOf env config fc p;
         ch = getFileLatestChanges env sp;
         resumed = awaitAll t (localization env fc r p sp ch) (locales config)
     in (GitLatestChanges sp #
           map (\<lambda>l. GitLatestChanges (localizedPathOf env config fc p l)) (locales config) @
           fst resumed,
         case snd resumed of
           Exited c \<Rightarrow> Exited c
         | Returned ls \<Rightarrow>
             Returned (Some (file_config.extend fc
               (status_entry.fields
                  \<lparr>status_source.lang = lunaria_locale.lang (sourceLocale config),
                   path = sp, git = ch\<rparr> ls)))))"
  using assms by (simp add: getFileStatus_def sourcePathOf_def localizedPathOf_def Let_def)

lemma getFileStatus_Some:
  assumes "snd (getFileStatus env config t p) = Returned (Some e)"
  obtains fc b ls where
    "findFileConfig env config p = Some fc"
    "isFileLocalizable env p (localizableProperty (tracking config)) = Inr b"
    "map (\<lambda>l. snd (localization env fc (getPathResolver env config (pattern fc)) p
        (sourcePathOf env config fc p)
        (getFileLatestChanges env (sourcePathOf env config fc p)) l)) (locales config)
      = map Returned ls"
    "e = file_config.extend fc
               (status_entry.fields
                  \<lparr>status_source.lang = lunaria_locale.lang (sourceLocale config),
                   path = sourcePathOf env config fc p,
                   git = getFileLatestChanges env (sourcePathOf env config fc p)\<rparr> ls)"
proof (cases "findFileConfig env config p")
  case None
  then show ?thesis using assms by (simp add: getFileStatus_def)
next
  case (Some fc)
  show ?thesis
  proof (cases "isFileLocalizable env p (localizableProperty (tracking config))")
    case (Inl m)
    then show ?thesis using assms Some by (simp add: getFileStatus_def Let_def)
  next
    case (Inr b)
    let ?r = "getPathResolver env config (pattern fc)"
    let ?sp = "sourcePathOf env config fc p"
    let ?ch = "getFileLatestChanges env ?sp"
    let ?res = "awaitAll t (localization env fc ?r p ?sp ?ch) (locales config)"
    from assms obtain ls where ls: "snd ?res = Returned ls"
      and e: "e = file_config.extend fc
               (status_entry.fields
                  \<lparr>status_source.lang = lunaria_locale.lang (sourceLocale config),
                   path = ?sp, git = ?ch\<rparr> ls)"
      by (auto simp: getFileStatus_found[OF Some Inr] Let_def split: outcome.splits)
    from ls have "map (\<lambda>l. snd (localization env fc ?r p ?sp ?ch l)) (locales config) = map Returned ls"
      by (simp only: awaitAll_Returned_iff)
    then show ?thesis using that[OF Some Inr _ e] by blast
  qed
qed

lemma date_gt_iff: "date_gt x y \<longleftrightarrow> (\<exists>a b. x = Some a \<and> y = Some b \<and> b < a)"
  by (cases x; cases y) auto

lemma localization_cases:
  assumes "snd (localization env fc r p sp ch l) = Returned le"
  shows "status_localization.lang le = lunaria_locale.lang l
       \<and> status_localization.path le = toPath r p (lunaria_locale.lang l)
       \<and> (if existsSync env (resolve env (toPath r p (lunaria_locale.lang l)))
          then status_localization.git le = Some (getFileLatestChanges env (toPath r p (lunaria_locale.lang l)))
             \<and> status le = (if date_gt (Date env (date (latestTrackedChange ch)))
                   (Date env (date (latestTrackedChange
                      (getFileLatestChanges env (toPath r p (lunaria_locale.lang l))))))
                 then Outdated else UpToDate)
             \<and> snd (entryTypeData env fc sp (toPath r p (lunaria_locale.lang l)))
                 = Returned (missingKeys le)
          else status_localization.git le = None \<and> status le = Missing \<and> missingKeys le = None)"
proof (cases "existsSync env (resolve env (toPath r p (lunaria_locale.lang l)))")
  case False
  then show ?thesis using assms by (auto simp: localization_def Let_def)
next
  case True
  obtain evs out where e: "entryTypeData env fc sp (toPath r p (lunaria_locale.lang l)) = (evs, out)"
    by (cases "entryTypeData env fc sp (toPath r p (lunaria_locale.lang l))")
  show ?thesis
  proof (cases out)
    case (Exited c)
    then show ?thesis using assms True e by (simp add: localization_def Let_def)
  next
    case (Returned keys)
    then show ?thesis using assms True e by (auto simp: localization_def Let_def)
  qed
qed

lemma entryTypeData_keys:
  "snd (entryTypeData env fc sp lp) = Returned (Some keys) \<Longrightarrow> type fc = ''dictionary''"
  by (simp add: entryTypeData_def split: if_splits sum.splits thrown.splits)

lemma map_eq_Returned_nth:
  assumes "map f xs = map Returned ys" "le \<in> set ys"
  shows "\<exists>l \<in> set xs. f l = Returned le"
proof -
  from assms(2) obtain i where i: "i < length ys" "ys ! i = le" by (auto simp: in_set_conv_nth)
  from assms(1) have len: "length xs = length ys" by (rule map_eq_imp_length_eq)
  from assms(1) have "map f xs ! i = map Returned ys ! i" by simp
  with i len have "f (xs ! i) = Returned le" by simp
  moreover have "xs ! i \<in> set xs" using i len by simp
  ultimately show ?thesis by blast
qed

lemma entry_fields:
  "source (file_config.extend fc (status_entry.fields s ls)) = s"
  "localizations (file_config.extend fc (status_entry.fields s ls)) = ls"
  "file_config.truncate (file_config.extend fc (status_entry.fields s ls)) = fc"
  "include (file_config.extend fc (status_entry.fields s ls)) = include fc"
  "exclude (file_config.extend fc (status_entry.fields s ls)) = exclude fc"
  "pattern (file_config.extend fc (status_entry.fields s ls)) = pattern fc"
  "type (file_config.extend fc (status_entry.fields s ls)) = type fc"
  "optionalKeys (file_config.extend fc (status_entry.fields s ls)) = optionalKeys fc"
  by (simp_all add: file_config.extend_def status_entry.fields_def file_config.truncate_def)

lemmas run_defs = getFileStatus_def findFileConfig_def matchesFile_def getPathResolver_def
  localization_def entryTypeData_def Let_def file_config.extend_def status_entry.fields_def
  awaitAll_def at_once_def all_at_once_def

lemma example_a: "getFileStatus example_env example_config at_once ''en/a.md'' =
  ([GitLatestChanges ''en/a.md'', GitLatestChanges ''fr/a.md'', GitLatestChanges ''de/a.md''],
   Returned (Some example_a_status))"
  by (simp add: example_defs run_defs example_a_status_def)

lemma example_ui: "getFileStatus example_env example_config at_once ''en/ui.json'' =
  ([GitLatestChanges ''en/ui.json'', GitLatestChanges ''fr/ui.json'', GitLatestChanges ''de/ui.json''],
   Returned (Some example_ui_status))"
  by (simp add: example_defs run_defs example_ui_status_def)

subsection \<open>Claims about \<open>findFileConfig\<close> and \<open>getFileStatus\<close>\<close>

text \<open>
  Claim C8. \<open>findFileConfig\<close> returns the first entry of \<open>config.files\<close>, in
  declaration order, whose pattern matches the path in source or locale form, also when
  later entries match as well; it returns \<open>undefined\<close> exactly when no entry matches.
  The result is an optional entry: there is no error for an ambiguous path.
\<close>

theorem findFileConfig_first_match:
  "(findFileConfig env config p = Some fc \<longleftrightarrow>
      (\<exists>i < length (files config). files config ! i = fc \<and> matchesFile env config p fc
         \<and> (\<forall>j < i. \<not> matchesFile env config p (files config ! j))))
   \<and> (findFileConfig env config p = None \<longleftrightarrow>
      (\<forall>file \<in> set (files config). \<not> matchesFile env config p file))"
  unfolding findFileConfig_def find_Some_iff find_None_iff by blast

theorem findFileConfig_first_match_witness:
  "findFileConfig example_env (example_config\<lparr>files := [example_md, example_md\<lparr>type := ''dictionary''\<rparr>]\<rparr>) ''en/a.md''
     = Some example_md
   \<and> matchesFile example_env (example_config\<lparr>files := [example_md, example_md\<lparr>type := ''dictionary''\<rparr>]\<rparr>) ''en/a.md''
        (example_md\<lparr>type := ''dictionary''\<rparr>)
   \<and> findFileConfig example_env example_config ''zz/a.md'' = None"
proof -
  let ?c = "example_config\<lparr>files := [example_md, example_md\<lparr>type := ''dictionary''\<rparr>]\<rparr>"
  have m: "matchesFile example_env ?c ''en/a.md'' example_md"
    by (simp add: example_defs matchesFile_def getPathResolver_def)
  have m2: "matchesFile example_env ?c ''en/a.md'' (example_md\<lparr>type := ''dictionary''\<rparr>)"
    by (simp add: example_defs matchesFile_def getPathResolver_def)
  have "\<exists>i < length (files ?c). files ?c ! i = example_md \<and> matchesFile example_env ?c ''en/a.md'' example_md
         \<and> (\<forall>j < i. \<not> matchesFile example_env ?c ''en/a.md'' (files ?c ! j))"
    using m by (intro exI[of _ 0]) simp
  then have a: "findFileConfig example_env ?c ''en/a.md'' = Some example_md"
    using findFileConfig_first_match[of example_env ?c "''en/a.md''" example_md] by blast
  have "\<forall>file \<in> set (files example_config). \<not> matchesFile example_env example_config ''zz/a.md'' file"
    by (simp add: example_defs matchesFile_def getPathResolver_def)
  then have b: "findFileConfig example_env example_config ''zz/a.md'' = None"
    using findFileConfig_first_match[of example_env example_config "''zz/a.md''" example_md] by blast
  show ?thesis using a m2 b by blast
qed

text \<open>
  Claim C10. Every entry returned by \<open>getFileStatus\<close> carries the fields of the matched
  \<open>files\<close> entry (\<open>include\<close>, \<open>exclude\<close>, \<open>pattern\<close>, \<open>type\<close>, \<open>optionalKeys\<close>)
  unchanged, next to \<open>source\<close> and \<open>localizations\<close>: cutting the entry back to the
  fields of a file configuration gives the matched configuration.
\<close>

theorem getFileStatus_spreads_fileConfig:
  assumes "snd (getFileStatus env config t p) = Returned (Some e)"
  shows "\<exists>fc. findFileConfig env config p = Some fc
      \<and> include e = include fc \<and> exclude e = exclude fc \<and> pattern e = pattern fc
      \<and> type e = type fc \<and> optionalKeys e = optionalKeys fc
      \<and> file_config.truncate e = fc"
  using assms by (elim getFileStatus_Some) (simp add: entry_fields)

theorem getFileStatus_spreads_fileConfig_witness:
  "snd (getFileStatus example_env example_config at_once ''en/ui.json'') = Returned (Some example_ui_status)
   \<and> findFileConfig example_env example_config ''en/ui.json'' = Some example_json
   \<and> file_config.truncate example_ui_status = example_json
   \<and> type example_ui_status = ''dictionary''
   \<and> optionalKeys example_ui_status = Some [''footer'']"
proof -
  have h: "snd (getFileStatus example_env example_config at_once ''en/ui.json'') = Returned (Some example_ui_status)"
    by (simp add: example_ui)
  have f: "findFileConfig example_env example_config ''en/ui.json'' = Some example_json"
    by (simp add: example_defs findFileConfig_def matchesFile_def getPathResolver_def)
  from getFileStatus_spreads_fileConfig[OF h] f
  have "file_config.truncate example_ui_status = example_json
      \<and> type example_ui_status = type example_json
      \<and> optionalKeys example_ui_status = optionalKeys example_json" by auto
  then show ?thesis using h f by (simp add: example_json_def)
qed

text \<open>
  Claim C7. In every localization entry of a returned file status, the \<open>git\<close> property
  is absent exactly when the status is \<open>missing\<close>, and \<open>missingKeys\<close> is present only
  when the \<open>type\<close> of the entry's file configuration is \<open>dictionary\<close>.
\<close>

theorem localization_fields:
  assumes "snd (getFileStatus env config t p) = Returned (Some e)"
    and "le \<in> set (localizations e)"
  shows "(status_localization.git le = None \<longleftrightarrow> status le = Missing)
       \<and> (missingKeys le \<noteq> None \<longrightarrow> type e = ''dictionary'')"
proof -
  from assms(1) obtain fc b ls where
    m: "map (\<lambda>l. snd (localization env fc (getPathResolver env config (pattern fc)) p
        (sourcePathOf env config fc p)
        (getFileLatestChanges env (sourcePathOf env config fc p)) l)) (locales config)
      = map Returned ls"
    and e: "e = file_config.extend fc
               (status_entry.fields
                  \<lparr>status_source.lang = lunaria_locale.lang (sourceLocale config),
                   path = sourcePathOf env config fc p,
                   git = getFileLatestChanges env (sourcePathOf env config fc p)\<rparr> ls)"
    by (rule getFileStatus_Some)
  from assms(2) e have "le \<in> set ls" by (simp add: entry_fields)
  from map_eq_Returned_nth[OF m this] obtain l where
    l: "snd (localization env fc (getPathResolver env config (pattern fc)) p
        (sourcePathOf env config fc p)
        (getFileLatestChanges env (sourcePathOf env config fc p)) l) = Returned le"
    by blast
  note c = localization_cases[OF l]
  have t: "type e = type fc" using e by (simp add: entry_fields)
  show ?thesis
  proof (cases "existsSync env (resolve env (toPath (getPathResolver env config (pattern fc)) p (lunaria_locale.lang l)))")
    case True
    with c show ?thesis using entryTypeData_keys[of env fc] t by (auto split: if_splits)
  next
    case False
    with c show ?thesis by simp
  qed
qed

theorem localization_fields_witness:
  "snd (getFileStatus example_env example_config at_once ''en/ui.json'') = Returned (Some example_ui_status)
   \<and> localizations example_ui_status ! 1 \<in> set (localizations example_ui_status)
   \<and> status (localizations example_ui_status ! 1) = UpToDate
   \<and> status_localization.git (localizations example_ui_status ! 1) \<noteq> None
   \<and> missingKeys (localizations example_ui_status ! 1) = Some [''title'']
   \<and> type example_ui_status = ''dictionary''"
proof -
  have h: "snd (getFileStatus example_env example_config at_once ''en/ui.json'') = Returned (Some example_ui_status)"
    by (simp add: example_ui)
  have m: "localizations example_ui_status ! 1 \<in> set (localizations example_ui_status)"
    by (simp add: example_ui_status_def)
  have k: "missingKeys (localizations example_ui_status ! 1) = Some [''title'']"
    and s: "status (localizations example_ui_status ! 1) = UpToDate"
    by (simp_all add: example_ui_status_def)
  from localization_fields[OF h m] k s show ?thesis using h m by simp
qed

text \<open>
  Claim C3. For a localized file that exists, the entry carries the latest changes of
  the localized path, and its status is \<open>outdated\<close> exactly when both dates are valid
  and the time value \<open>a\<close> of the source's latest tracked change is strictly greater
  than the time value \<open>b\<close> of the localized file's latest tracked change; in every
  other case, equal time values included, the status is \<open>up-to-date\<close>.
\<close>

theorem outdated_iff_source_newer:
  assumes "snd (getFileStatus env config t p) = Returned (Some e)"
    and "le \<in> set (localizations e)"
    and "existsSync env (resolve env (status_localization.path le))"
  shows "status_source.git (source e) = getFileLatestChanges env (status_source.path (source e))
       \<and> status_localization.git le = Some (getFileLatestChanges env (status_localization.path le))
       \<and> (status le = Outdated \<longleftrightarrow>
            (\<exists>a b. Date env (date (latestTrackedChange (status_source.git (source e)))) = Some a
                 \<and> Date env (date (latestTrackedChange
                       (getFileLatestChanges env (status_localization.path le)))) = Some b
                 \<and> b < a))
       \<and> (status le \<noteq> Outdated \<longrightarrow> status le = UpToDate)"
proof -
  from assms(1) obtain fc b ls where
    m: "map (\<lambda>l. snd (localization env fc (getPathResolver env config (pattern fc)) p
        (sourcePathOf env config fc p)
        (getFileLatestChanges env (sourcePathOf env config fc p)) l)) (locales config)
      = map Returned ls"
    and e: "e = file_config.extend fc
               (status_entry.fields
                  \<lparr>status_source.lang = lunaria_locale.lang (sourceLocale config),
                   path = sourcePathOf env config fc p,
                   git = getFileLatestChanges env (sourcePathOf env config fc p)\<rparr> ls)"
    by (rule getFileStatus_Some)
  from assms(2) e have "le \<in> set ls" by (simp add: entry_fields)
  from map_eq_Returned_nth[OF m this] obtain l where
    l: "snd (localization env fc (getPathResolver env config (pattern fc)) p
        (sourcePathOf env config fc p)
        (getFileLatestChanges env (sourcePathOf env config fc p)) l) = Returned le"
    by blast
  note c = localization_cases[OF l]
  from c have pth: "status_localization.path le
      = toPath (getPathResolver env config (pattern fc)) p (lunaria_locale.lang l)" by simp
  have s: "source e = \<lparr>status_source.lang = lunaria_locale.lang (sourceLocale config),
                   path = sourcePathOf env config fc p,
                   git = getFileLatestChanges env (sourcePathOf env config fc p)\<rparr>"
    using e by (simp add: entry_fields)
  from c assms(3) show ?thesis unfolding pth[symmetric] s
    by (simp add: date_gt_iff split: if_splits)
qed

theorem outdated_iff_source_newer_witness:
  "snd (getFileStatus example_env example_config at_once ''en/a.md'') = Returned (Some example_a_status)
   \<and> localizations example_a_status ! 1 \<in> set (localizations example_a_status)
   \<and> existsSync example_env (resolve example_env (status_localization.path (localizations example_a_status ! 1)))
   \<and> Date example_env (date (latestTrackedChange (status_source.git (source example_a_status))))
       = Some 1706745600000
   \<and> Date example_env (date (latestTrackedChange (getFileLatestChanges example_env
        (status_localization.path (localizations example_a_status ! 1))))) = Some 1704067200000
   \<and> status (localizations example_a_status ! 1) = Outdated
   \<and> snd (getFileStatus example_env example_config at_once ''en/ui.json'') = Returned (Some example_ui_status)
   \<and> localizations example_ui_status ! 1 \<in> set (localizations example_ui_status)
   \<and> existsSync example_env (resolve example_env (status_localization.path (localizations example_ui_status ! 1)))
   \<and> Date example_env (date (latestTrackedChange (status_source.git (source example_ui_status))))
       = Some 1704067200000
   \<and> Date example_env (date (latestTrackedChange (getFileLatestChanges example_env
        (status_localization.path (localizations example_ui_status ! 1))))) = Some 1704067200000
   \<and> status (localizations example_ui_status ! 1) = UpToDate"
proof -
  have h: "snd (getFileStatus example_env example_config at_once ''en/a.md'') = Returned (Some example_a_status)"
    by (simp add: example_a)
  have m: "localizations example_a_status ! 1 \<in> set (localizations example_a_status)"
    by (simp add: example_a_status_def)
  have x: "existsSync example_env (resolve example_env (status_localization.path (localizations example_a_status ! 1)))"
    by (simp add: example_a_status_def example_env_def)
  have d1: "Date example_env (date (latestTrackedChange (status_source.git (source example_a_status))))
      = Some 1706745600000"
    by (simp add: example_a_status_def example_env_def)
  have d2: "Date example_env (date (latestTrackedChange (getFileLatestChanges example_env
        (status_localization.path (localizations example_a_status ! 1))))) = Some 1704067200000"
    by (simp add: example_a_status_def example_env_def)
  from outdated_iff_source_newer[OF h m x] d1 d2
  have o: "status (localizations example_a_status ! 1) = Outdated" by simp
  have h': "snd (getFileStatus example_env example_config at_once ''en/ui.json'') = Returned (Some example_ui_status)"
    by (simp add: example_ui)
  have m': "localizations example_ui_status ! 1 \<in> set (localizations example_ui_status)"
    by (simp add: example_ui_status_def)
  have x': "existsSync example_env (resolve example_env (status_localization.path (localizations example_ui_status ! 1)))"
    by (simp add: example_ui_status_def example_env_def)
  have d1': "Date example_env (date (latestTrackedChange (status_source.git (source example_ui_status))))
      = Some 1704067200000"
    by (simp add: example_ui_status_def example_env_def)
  have d2': "Date example_env (date (latestTrackedChange (getFileLatestChanges example_env
        (status_localization.path (localizations example_ui_status ! 1))))) = Some 1704067200000"
    by (simp add: example_ui_status_def example_env_def)
  from outdated_iff_source_newer[OF h' m' x'] d1' d2'
  have u: "status (localizations example_ui_status ! 1) = UpToDate" by simp
  show ?thesis using h m x d1 d2 o h' m' x' d1' d2' u by blast
qed

lemma localization_missing:
  "\<not> existsSync env (resolve env (toPath r p (lunaria_locale.lang l))) \<Longrightarrow>
   localization env fc r p sp ch l =
     ([], Returned \<lparr>status_localization.lang = lunaria_locale.lang l,
                     path = toPath r p (lunaria_locale.lang l), git = None, status = Missing,
                     missingKeys = None\<rparr>)"
  by (simp add: localization_def Let_def)

lemma getPathResolver_isFileLocalizable_update:
  "getPathResolver (env\<lparr>isFileLocalizable := f\<rparr>) config pat = getPathResolver env config pat"
  by (simp add: getPathResolver_def)

lemma findFileConfig_isFileLocalizable_update:
  "findFileConfig (env\<lparr>isFileLocalizable := f\<rparr>) config p = findFileConfig env config p"
proof -
  have "matchesFile (env\<lparr>isFileLocalizable := f\<rparr>) config p = matchesFile env config p"
    by (rule ext) (simp add: matchesFile_def getPathResolver_isFileLocalizable_update)
  then show ?thesis by (simp add: findFileConfig_def)
qed

lemma entryTypeData_isFileLocalizable_update:
  "entryTypeData (env\<lparr>isFileLocalizable := f\<rparr>) fc sp lp = entryTypeData env fc sp lp"
  by (simp add: entryTypeData_def)

lemma localization_isFileLocalizable_update:
  "localization (env\<lparr>isFileLocalizable := f\<rparr>) fc r p sp ch = localization env fc r p sp ch"
  by (rule ext) (simp add: localization_def Let_def entryTypeData_isFileLocalizable_update cong: if_cong)

text \<open>
  Claim C1 says that the history of a localized path that does not exist on disk is
  never looked up. \<open>getFileStatus\<close> calls \<open>git.getFileLatestChanges(localizedPath)\<close>
  before it tests \<open>existsSync\<close>: for \<open>en/a.md\<close>, whose French file \<open>fr/a.md\<close> does
  not exist, the history of \<open>fr/a.md\<close> is looked up, and the entry is \<open>missing\<close>.
\<close>

theorem lookup_for_missing_localization_counterexample:
  "existsSync example_env (resolve example_env ''fr/a.md'') = False
   \<and> localizedPathOf example_env example_config example_md ''en/a.md''
        \<lparr>label = ''French'', lang = ''fr''\<rparr> = ''fr/a.md''
   \<and> getFileStatus example_env example_config at_once ''en/a.md'' =
       ([GitLatestChanges ''en/a.md'', GitLatestChanges ''fr/a.md'', GitLatestChanges ''de/a.md''],
        Returned (Some example_a_status))
   \<and> status (localizations example_a_status ! 0) = Missing"
  by (simp add: example_a)
     (simp add: example_defs localizedPathOf_def getPathResolver_def example_a_status_def)

text \<open>
  Claim C1, amended. A call of \<open>getFileStatus\<close> that finds a \<open>files\<close> entry and passes
  the eligibility check looks up the history once for the source path and then once for
  the localized path of every configured locale, in the order of \<open>config.locales\<close>,
  whether or not the localized file exists; a call that skips the file looks up
  nothing. In a returned file status there is one localization entry per locale, and
  the entry of a locale whose localized path does not exist is the \<open>missing\<close> entry,
  without \<open>git\<close> and \<open>missingKeys\<close>.
\<close>

theorem history_lookups_per_call:
  "lookups (fst (getFileStatus env config t p)) =
     (case findFileConfig env config p of
        None \<Rightarrow> []
      | Some fc \<Rightarrow>
          (case isFileLocalizable env p (localizableProperty (tracking config)) of
             Inl message \<Rightarrow> []
           | Inr b \<Rightarrow> sourcePathOf env config fc p #
                      map (localizedPathOf env config fc p) (locales config)))
   \<and> (\<forall>fc e. findFileConfig env config p = Some fc
          \<and> snd (getFileStatus env config t p) = Returned (Some e) \<longrightarrow>
        length (localizations e) = length (locales config)
        \<and> (\<forall>i < length (locales config).
             \<not> existsSync env (resolve env (localizedPathOf env config fc p (locales config ! i)))
             \<longrightarrow> localizations e ! i =
                   \<lparr>status_localization.lang = lunaria_locale.lang (locales config ! i),
                    path = localizedPathOf env config fc p (locales config ! i),
                    git = None, status = Missing, missingKeys = None\<rparr>))"
proof (intro conjI allI impI)
  show "lookups (fst (getFileStatus env config t p)) =
     (case findFileConfig env config p of
        None \<Rightarrow> []
      | Some fc \<Rightarrow>
          (case isFileLocalizable env p (localizableProperty (tracking config)) of
             Inl message \<Rightarrow> []
           | Inr b \<Rightarrow> sourcePathOf env config fc p #
                      map (localizedPathOf env config fc p) (locales config)))"
  proof (cases "findFileConfig env config p")
    case None
    then show ?thesis by (simp add: getFileStatus_def)
  next
    case (Some fc)
    show ?thesis
    proof (cases "isFileLocalizable env p (localizableProperty (tracking config))")
      case (Inl m)
      then show ?thesis using Some by (simp add: getFileStatus_def Let_def)
    next
      case (Inr b)
      show ?thesis
        by (simp add: getFileStatus_found[OF Some Inr] Let_def Some Inr lookups_append
            lookups_map_Git lookups_resumed)
    qed
  qed
next
  fix fc e
  assume a: "findFileConfig env config p = Some fc
          \<and> snd (getFileStatus env config t p) = Returned (Some e)"
  from a have r: "snd (getFileStatus env config t p) = Returned (Some e)" by simp
  from r obtain fc' b ls where
    f: "findFileConfig env config p = Some fc'"
    and m: "map (\<lambda>l. snd (localization env fc' (getPathResolver env config (pattern fc')) p
        (sourcePathOf env config fc' p)
        (getFileLatestChanges env (sourcePathOf env config fc' p)) l)) (locales config)
      = map Returned ls"
    and e: "e = file_config.extend fc'
               (status_entry.fields
                  \<lparr>status_source.lang = lunaria_locale.lang (sourceLocale config),
                   path = sourcePathOf env config fc' p,
                   git = getFileLatestChanges env (sourcePathOf env config fc' p)\<rparr> ls)"
    by (rule getFileStatus_Some)
  from f a have fc: "fc' = fc" by simp
  have ls: "localizations e = ls" using e by (simp add: entry_fields)
  from m have len: "length (locales config) = length ls" by (rule map_eq_imp_length_eq)
  show "length (localizations e) = length (locales config)" using ls len by simp
  fix i
  assume i: "i < length (locales config)"
    and x: "\<not> existsSync env (resolve env (localizedPathOf env config fc p (locales config ! i)))"
  from m i len have "snd (localization env fc (getPathResolver env config (pattern fc)) p
        (sourcePathOf env config fc p)
        (getFileLatestChanges env (sourcePathOf env config fc p)) (locales config ! i))
      = Returned (ls ! i)"
    unfolding fc using nth_map[of i "locales config"] nth_map[of i ls Returned]
    by (metis (no_types, lifting))
  moreover have "localization env fc (getPathResolver env config (pattern fc)) p
        (sourcePathOf env config fc p)
        (getFileLatestChanges env (sourcePathOf env config fc p)) (locales config ! i)
     = ([], Returned \<lparr>status_localization.lang = lunaria_locale.lang (locales config ! i),
                    path = localizedPathOf env config fc p (locales config ! i),
                    git = None, status = Missing, missingKeys = None\<rparr>)"
    using x unfolding localizedPathOf_def by (rule localization_missing)
  ultimately show "localizations e ! i =
                   \<lparr>status_localization.lang = lunaria_locale.lang (locales config ! i),
                    path = localizedPathOf env config fc p (locales config ! i),
                    git = None, status = Missing, missingKeys = None\<rparr>"
    using ls by simp
qed

theorem history_lookups_per_call_witness:
  "findFileConfig example_env example_config ''en/a.md'' = Some example_md
   \<and> snd (getFileStatus example_env example_config at_once ''en/a.md'') = Returned (Some example_a_status)
   \<and> lookups (fst (getFileStatus example_env example_config at_once ''en/a.md''))
       = [''en/a.md'', ''fr/a.md'', ''de/a.md'']
   \<and> existsSync example_env (resolve example_env
        (localizedPathOf example_env example_config example_md ''en/a.md'' (locales example_config ! 0)))
       = False
   \<and> localizations example_a_status ! 0 =
        \<lparr>status_localization.lang = ''fr'', path = ''fr/a.md'',
         git = None, status = Missing, missingKeys = None\<rparr>"
proof -
  have f: "findFileConfig example_env example_config ''en/a.md'' = Some example_md"
    by (simp add: example_defs findFileConfig_def matchesFile_def getPathResolver_def)
  have r: "snd (getFileStatus example_env example_config at_once ''en/a.md'') = Returned (Some example_a_status)"
    by (simp add: example_a)
  have i: "0 < length (locales example_config)" by (simp add: example_config_def)
  have x: "\<not> existsSync example_env (resolve example_env
        (localizedPathOf example_env example_config example_md ''en/a.md'' (locales example_config ! 0)))"
    by (simp add: example_defs localizedPathOf_def getPathResolver_def)
  have l: "isFileLocalizable example_env ''en/a.md'' (localizableProperty (tracking example_config)) = Inr True"
    by (simp add: example_env_def)
  have s: "sourcePathOf example_env example_config example_md ''en/a.md'' = ''en/a.md''"
    by (simp add: example_defs sourcePathOf_def getPathResolver_def)
  have ps: "map (localizedPathOf example_env example_config example_md ''en/a.md'') (locales example_config)
      = [''fr/a.md'', ''de/a.md'']"
    by (simp add: example_defs localizedPathOf_def getPathResolver_def)
  note t = history_lookups_per_call[of example_env example_config at_once "''en/a.md''"]
  from t have "lookups (fst (getFileStatus example_env example_config at_once ''en/a.md''))
       = [''en/a.md'', ''fr/a.md'', ''de/a.md'']"
    by (simp add: f l s ps)
  moreover from t f r i x have "localizations example_a_status ! 0 =
        \<lparr>status_localization.lang = lunaria_locale.lang (locales example_config ! 0),
         path = localizedPathOf example_env example_config example_md ''en/a.md'' (locales example_config ! 0),
         git = None, status = Missing, missingKeys = None\<rparr>"
    by blast
  ultimately show ?thesis using f r x
    by (simp add: example_defs localizedPathOf_def getPathResolver_def)
qed

text \<open>
  Claim C9. \<open>isFileLocalizable\<close> is called with the path given to \<open>getFileStatus\<close>,
  not with the source path derived from it. For a path with a \<open>files\<close> entry, the file
  is skipped with a logged message exactly when the check on the given path returns an
  error with that message; and whatever the check answers on other paths, the source
  path included, \<open>getFileStatus\<close> does the same as long as the answer on the given path
  is the same.
\<close>

theorem eligibility_checked_on_given_path:
  "(findFileConfig env config p \<noteq> None \<longrightarrow>
      (\<forall>message. getFileStatus env config t p = ([LogError message], Returned None) \<longleftrightarrow>
         isFileLocalizable env p (localizableProperty (tracking config)) = Inl message))
   \<and> (\<forall>f. f p (localizableProperty (tracking config))
             = isFileLocalizable env p (localizableProperty (tracking config)) \<longrightarrow>
        getFileStatus (env\<lparr>isFileLocalizable := f\<rparr>) config t p = getFileStatus env config t p)"
proof (intro conjI allI impI)
  fix message
  assume "findFileConfig env config p \<noteq> None"
  then obtain fc where fc: "findFileConfig env config p = Some fc" by auto
  show "getFileStatus env config t p = ([LogError message], Returned None) \<longleftrightarrow>
         isFileLocalizable env p (localizableProperty (tracking config)) = Inl message"
  proof (cases "isFileLocalizable env p (localizableProperty (tracking config))")
    case (Inl m)
    then show ?thesis using fc by (auto simp: getFileStatus_def Let_def)
  next
    case (Inr b)
    then show ?thesis by (simp add: getFileStatus_found[OF fc Inr] Let_def)
  qed
next
  fix f
  assume a: "f p (localizableProperty (tracking config))
             = isFileLocalizable env p (localizableProperty (tracking config))"
  show "getFileStatus (env\<lparr>isFileLocalizable := f\<rparr>) config t p = getFileStatus env config t p"
  proof (cases "findFileConfig env config p")
    case None
    then show ?thesis
      by (simp add: getFileStatus_def findFileConfig_isFileLocalizable_update)
  next
    case (Some fc)
    show ?thesis
    proof (cases "isFileLocalizable env p (localizableProperty (tracking config))")
      case (Inl m)
      then show ?thesis using Some a
        by (simp add: getFileStatus_def findFileConfig_isFileLocalizable_update Let_def)
    next
      case (Inr b)
      then show ?thesis using Some a
        by (simp add: getFileStatus_def findFileConfig_isFileLocalizable_update Let_def
            getPathResolver_isFileLocalizable_update localization_isFileLocalizable_update)
    qed
  qed
qed

theorem eligibility_checked_on_given_path_witness:
  "sourcePathOf example_env example_config example_md ''fr/b.md'' = ''en/b.md''
   \<and> findFileConfig example_env example_config ''fr/b.md'' = Some example_md
   \<and> isFileLocalizable example_env ''fr/b.md'' (localizableProperty (tracking example_config))
       = Inr True
   \<and> getFileStatus
        (example_env\<lparr>isFileLocalizable :=
           \<lambda>q prop. if q = ''en/b.md'' then Inl ''source is not localizable'' else Inr True\<rparr>)
        example_config at_once ''fr/b.md''
      = getFileStatus example_env example_config at_once ''fr/b.md''
   \<and> lookups (fst (getFileStatus example_env example_config at_once ''fr/b.md''))
      = [''en/b.md'', ''fr/b.md'', ''de/b.md'']
   \<and> getFileStatus
        (example_env\<lparr>isFileLocalizable :=
           \<lambda>q prop. if q = ''fr/b.md'' then Inl ''translation is not localizable'' else Inr True\<rparr>)
        example_config at_once ''fr/b.md''
      = ([LogError ''translation is not localizable''], Returned None)"
proof -
  let ?f = "\<lambda>q (prop :: string option). if q = ''en/b.md'' then Inl ''source is not localizable'' else Inr True"
  let ?g = "\<lambda>q (prop :: string option).
      if q = ''fr/b.md'' then Inl ''translation is not localizable'' else Inr True"
  let ?env = "example_env\<lparr>isFileLocalizable := ?g\<rparr>"
  have c: "findFileConfig example_env example_config ''fr/b.md'' = Some example_md"
    by (simp add: example_defs findFileConfig_def matchesFile_def getPathResolver_def)
  have v: "isFileLocalizable example_env ''fr/b.md'' (localizableProperty (tracking example_config))
       = Inr True"
    by (simp add: example_env_def)
  have h: "?f ''fr/b.md'' (localizableProperty (tracking example_config))
     = isFileLocalizable example_env ''fr/b.md'' (localizableProperty (tracking example_config))"
    by (simp add: example_env_def)
  have s: "sourcePathOf example_env example_config example_md ''fr/b.md'' = ''en/b.md''"
    by (simp add: example_defs sourcePathOf_def getPathResolver_def)
  have l: "lookups (fst (getFileStatus example_env example_config at_once ''fr/b.md''))
      = [''en/b.md'', ''fr/b.md'', ''de/b.md'']"
    by (simp add: example_defs run_defs)
  note t = eligibility_checked_on_given_path[of example_env example_config "''fr/b.md''" at_once]
  from t have "?f ''fr/b.md'' (localizableProperty (tracking example_config))
         = isFileLocalizable example_env ''fr/b.md'' (localizableProperty (tracking example_config))
     \<longrightarrow> getFileStatus (example_env\<lparr>isFileLocalizable := ?f\<rparr>) example_config at_once ''fr/b.md''
           = getFileStatus example_env example_config at_once ''fr/b.md''"
    by (elim conjE allE[of _ ?f])
  with h have n: "getFileStatus (example_env\<lparr>isFileLocalizable := ?f\<rparr>) example_config at_once ''fr/b.md''
      = getFileStatus example_env example_config at_once ''fr/b.md''"
    by (rule rev_mp)
  have c': "findFileConfig ?env example_config ''fr/b.md'' \<noteq> None"
    by (simp add: findFileConfig_isFileLocalizable_update c)
  have e: "isFileLocalizable ?env ''fr/b.md'' (localizableProperty (tracking example_config))
      = Inl ''translation is not localizable''"
    by simp
  note t' = eligibility_checked_on_given_path[of ?env example_config "''fr/b.md''" at_once]
  from t' c' have "\<forall>message. getFileStatus ?env example_config at_once ''fr/b.md''
        = ([LogError message], Returned None) \<longleftrightarrow>
      isFileLocalizable ?env ''fr/b.md'' (localizableProperty (tracking example_config)) = Inl message"
    by (elim conjE impE)
  then have "getFileStatus ?env example_config at_once ''fr/b.md''
        = ([LogError ''translation is not localizable''], Returned None) \<longleftrightarrow>
      isFileLocalizable ?env ''fr/b.md'' (localizableProperty (tracking example_config))
        = Inl ''translation is not localizable''"
    by (rule spec)
  with e have d: "getFileStatus ?env example_config at_once ''fr/b.md''
      = ([LogError ''translation is not localizable''], Returned None)"
    by (rule rev_iffD2)
  show ?thesis using s c v n l d by blast
qed

subsection \<open>Auxiliary facts about \<open>getFullStatus\<close>\<close>

lemma entryTypeData_exit_code: "snd (entryTypeData env fc sp lp) = Exited c \<Longrightarrow> c = 1"
  by (simp add: entryTypeData_def split: if_splits sum.splits thrown.splits)

lemma snd_localization:
  "snd (localization env fc r p sp ch l) = Exited c \<longleftrightarrow>
     existsSync env (resolve env (toPath r p (lunaria_locale.lang l)))
     \<and> snd (entryTypeData env fc sp (toPath r p (lunaria_locale.lang l))) = Exited c"
  by (cases "entryTypeData env fc sp (toPath r p (lunaria_locale.lang l))")
     (simp add: localization_def Let_def split: outcome.splits)

lemma localization_exit_code: "snd (localization env fc r p sp ch l) = Exited c \<Longrightarrow> c = 1"
  using entryTypeData_exit_code by (auto simp: snd_localization)

lemma getFileStatus_exit_code:
  assumes "snd (getFileStatus env config t p) = Exited c"
  shows "c = 1"
proof (cases "findFileConfig env config p")
  case None
  then show ?thesis using assms by (simp add: getFileStatus_def)
next
  case (Some fc)
  show ?thesis
  proof (cases "isFileLocalizable env p (localizableProperty (tracking config))")
    case (Inl m)
    then show ?thesis using assms Some by (simp add: getFileStatus_def Let_def)
  next
    case (Inr b)
    from assms have "snd (awaitAll t (localization env fc (getPathResolver env config (pattern fc)) p
        (sourcePathOf env config fc p) (getFileLatestChanges env (sourcePathOf env config fc p)))
        (locales config)) = Exited c"
      by (simp add: getFileStatus_found[OF Some Inr] Let_def split: outcome.splits)
    from awaitAll_Exited[OF this] show ?thesis by (auto dest: localization_exit_code)
  qed
qed

lemma pushAll_eq:
  "pushAll env config resolvedAt ps report =
     (if \<exists>p \<in> set ps. exits env config resolvedAt p then Exited 1
      else Returned (report @ List.map_filter (fileStatusOf env config resolvedAt) ps))"
proof (induction ps arbitrary: report)
  case Nil
  show ?case by (simp add: List.map_filter_simps)
next
  case (Cons p ps)
  show ?case
  proof (cases "snd (getFileStatus env config (resolvedAt p) p)")
    case (Exited c)
    then have "c = 1" by (rule getFileStatus_exit_code)
    then show ?thesis using Exited by (simp add: exits_def)
  next
    case (Returned r)
    then have ne: "\<not> exits env config resolvedAt p" by (simp add: exits_def)
    show ?thesis
    proof (cases r)
      case None
      then have "fileStatusOf env config resolvedAt p = None" using Returned by (simp add: fileStatusOf_def)
      then show ?thesis using None Returned ne Cons.IH[of report]
        by (simp add: List.map_filter_simps)
    next
      case (Some e)
      then have "fileStatusOf env config resolvedAt p = Some e" using Returned by (simp add: fileStatusOf_def)
      then show ?thesis using Some Returned ne Cons.IH[of "report @ [e]"]
        by (simp add: List.map_filter_simps)
    qed
  qed
qed

lemma completes_set: "completes completion \<Longrightarrow> set (completion g xs) = set xs"
  unfolding completes_def by (metis mset_eq_setD)

lemma completes_distinct: "completes completion \<Longrightarrow> distinct (completion g xs) = distinct xs"
  unfolding completes_def by (metis mset_eq_imp_distinct_iff)

lemma processFiles_eq:
  assumes "completes completion"
  shows "processFiles env config completion resolvedAt g fs report =
     (if \<exists>file \<in> set fs. \<exists>p \<in> set (sourceFilePaths env config file). exits env config resolvedAt p
      then Exited 1
      else Returned (report @ reported env config completion resolvedAt g fs))"
proof (induction fs arbitrary: g report)
  case Nil
  show ?case by (simp add: reported_def)
next
  case (Cons f fs)
  have s: "set (completion g (sort (sourceFilePaths env config f)))
         = set (sourceFilePaths env config f)"
    using completes_set[OF assms] by simp
  show ?case
  proof (cases "\<exists>p \<in> set (sourceFilePaths env config f). exits env config resolvedAt p")
    case True
    then show ?thesis by (simp add: pushAll_eq s)
  next
    case False
    then show ?thesis using Cons.IH
      by (simp add: pushAll_eq s reported_def)
  qed
qed

lemma completes_dispatch_order: "completes dispatch_order"
  by (simp add: completes_def dispatch_order_def)

lemma completes_reverse_order: "completes reverse_order"
  by (simp add: completes_def reverse_order_def)

lemmas full_defs = getFullStatus_def sourceFilePaths_def dispatch_order_def reverse_order_def

lemma resumeAll_first_exit:
  "(\<And>x. x \<in> set xs \<Longrightarrow> \<exists>y. x = ([], Returned y)) \<Longrightarrow>
   resumeAll (xs @ (evs, Exited c) # rest) = (evs, Some c)"
proof (induction xs)
  case Nil
  show ?case by simp
next
  case (Cons a xs)
  from Cons.prems[of a] obtain y where a: "a = ([], Returned y)" by auto
  have "resumeAll (xs @ (evs, Exited c) # rest) = (evs, Some c)"
    using Cons.IH Cons.prems by simp
  then show ?case unfolding a by simp
qed

lemmas broken_defs = example_broken_config_def example_broken_json_def

lemma fileStatusOf_source_path:
  assumes "fileStatusOf env config resolvedAt p = Some e"
    and "\<forall>fc. findFileConfig env config p = Some fc \<longrightarrow>
           isSourcePathMatch (getPathResolver env config (pattern fc)) p"
  shows "status_source.path (source e) = p"
proof -
  from assms(1) have "snd (getFileStatus env config (resolvedAt p) p) = Returned (Some e)"
    by (simp add: fileStatusOf_def split: outcome.splits)
  then obtain fc b ls where
    f: "findFileConfig env config p = Some fc"
    and e: "e = file_config.extend fc
               (status_entry.fields
                  \<lparr>status_source.lang = lunaria_locale.lang (sourceLocale config),
                   path = sourcePathOf env config fc p,
                   git = getFileLatestChanges env (sourcePathOf env config fc p)\<rparr> ls)"
    by (rule getFileStatus_Some)
  from assms(2) f have "sourcePathOf env config fc p = p" by (simp add: sourcePathOf_def)
  then show ?thesis using e by (simp add: entry_fields)
qed

lemma map_filter_source_paths:
  assumes "\<And>p e. p \<in> set ps \<Longrightarrow> f p = Some e \<Longrightarrow> g e = p"
  shows "map g (List.map_filter f ps) = filter (\<lambda>p. f p \<noteq> None) ps"
  using assms
proof (induction ps)
  case Nil
  show ?case by (simp add: List.map_filter_simps)
next
  case (Cons a ps)
  then show ?case by (cases "f a") (auto simp: List.map_filter_simps)
qed

lemma reported_source_paths:
  assumes "completes completion"
    and "\<forall>grp \<in> set fs. \<forall>p \<in> set (sourceFilePaths env config grp). \<forall>fc.
           findFileConfig env config p = Some fc \<longrightarrow>
           isSourcePathMatch (getPathResolver env config (pattern fc)) p"
  shows "set (map (\<lambda>e. status_source.path (source e)) (reported env config completion resolvedAt g fs))
           \<subseteq> set (concat (map (sourceFilePaths env config) fs))
       \<and> (distinct (concat (map (sourceFilePaths env config) fs)) \<longrightarrow>
          distinct (map (\<lambda>e. status_source.path (source e)) (reported env config completion resolvedAt g fs)))"
  using assms(2)
proof (induction fs arbitrary: g)
  case Nil
  show ?case by (simp add: reported_def)
next
  case (Cons f fs)
  let ?kept = "sourceFilePaths env config f"
  let ?done = "completion g (sort ?kept)"
  let ?src = "\<lambda>e. status_source.path (source e)"
  have set_done: "set ?done = set ?kept" using completes_set[OF assms(1)] by simp
  have here: "map ?src (List.map_filter (fileStatusOf env config resolvedAt) ?done)
      = filter (\<lambda>p. fileStatusOf env config resolvedAt p \<noteq> None) ?done"
  proof (rule map_filter_source_paths)
    fix p e
    assume "p \<in> set ?done" and "fileStatusOf env config resolvedAt p = Some e"
    then show "status_source.path (source e) = p"
      using Cons.prems set_done by (intro fileStatusOf_source_path) auto
  qed
  have split: "reported env config completion resolvedAt g (f # fs)
      = List.map_filter (fileStatusOf env config resolvedAt) ?done @ reported env config completion resolvedAt (Suc g) fs"
    by (simp add: reported_def)
  from Cons.IH[of "Suc g"] Cons.prems
  have ih: "set (map ?src (reported env config completion resolvedAt (Suc g) fs))
           \<subseteq> set (concat (map (sourceFilePaths env config) fs))"
    and ihd: "distinct (concat (map (sourceFilePaths env config) fs)) \<Longrightarrow>
          distinct (map ?src (reported env config completion resolvedAt (Suc g) fs))"
    by simp_all
  have sub: "set (filter (\<lambda>p. fileStatusOf env config resolvedAt p \<noteq> None) ?done) \<subseteq> set ?kept"
    using set_done by auto
  show ?case
  proof (intro conjI impI)
    show "set (map ?src (reported env config completion resolvedAt g (f # fs)))
           \<subseteq> set (concat (map (sourceFilePaths env config) (f # fs)))"
      unfolding split using here sub ih by auto
  next
    assume d: "distinct (concat (map (sourceFilePaths env config) (f # fs)))"
    then have dk: "distinct ?kept"
      and dr: "distinct (concat (map (sourceFilePaths env config) fs))"
      and dj: "set ?kept \<inter> set (concat (map (sourceFilePaths env config) fs)) = {}"
      by simp_all
    have "distinct ?done" using completes_distinct[OF assms(1)] dk by simp
    then have d1: "distinct (filter (\<lambda>p. fileStatusOf env config resolvedAt p \<noteq> None) ?done)" by simp
    show "distinct (map ?src (reported env config completion resolvedAt g (f # fs)))"
      unfolding split using here d1 ihd[OF dr] sub ih dj by (auto simp: distinct_append)
  qed
qed

subsection \<open>Claims about the run\<close>



text \<open>
  Claim C4. Let \<open>p\<close> be a path dispatched by \<open>getFullStatus\<close> whose \<open>files\<close> entry has
  type \<open>dictionary\<close>, and let \<open>l\<close> be the first locale, in the order in which the
  callbacks of the locales resume, for which \<open>getDictionaryCompletion\<close> throws, the
  thrown value being an \<open>Error\<close>. Then \<open>getFileStatus\<close> logs the message of that
  error, after the history lookups, and exits the process with code 1; \<open>getFullStatus\<close>
  exits with code 1 and returns no report, whatever the completion order.
\<close>

theorem dictionary_error_ends_run:
  assumes "completes completion"
    and "grp \<in> set (files config)"
    and "p \<in> set (sourceFilePaths env config grp)"
    and "findFileConfig env config p = Some fc"
    and "type fc = ''dictionary''"
    and "isFileLocalizable env p (localizableProperty (tracking config)) = Inr b"
    and "sort_key (resolvedAt p) (locales config) = pre @ l # post"
    and "\<forall>l' \<in> set pre.
           existsSync env (resolve env (localizedPathOf env config fc p l')) \<longrightarrow>
           (\<exists>keys. getDictionaryCompletion env (optionalKeys fc) (sourcePathOf env config fc p)
                     (localizedPathOf env config fc p l') = Inr keys)"
    and "existsSync env (resolve env (localizedPathOf env config fc p l))"
    and "getDictionaryCompletion env (optionalKeys fc) (sourcePathOf env config fc p)
           (localizedPathOf env config fc p l) = Inl (ThrownError message)"
  shows "getFileStatus env config (resolvedAt p) p =
           (GitLatestChanges (sourcePathOf env config fc p) #
              map (\<lambda>l. GitLatestChanges (localizedPathOf env config fc p l)) (locales config) @
              [LogError message],
            Exited 1)
       \<and> getFullStatus env config completion resolvedAt = Exited 1"
proof -
  let ?r = "getPathResolver env config (pattern fc)"
  let ?sp = "sourcePathOf env config fc p"
  let ?loc = "localization env fc ?r p ?sp (getFileLatestChanges env ?sp)"
  have l: "?loc l = ([LogError message], Exited 1)"
    using assms(5,9,10) by (simp add: localization_def Let_def entryTypeData_def localizedPathOf_def)
  have pre: "\<exists>y. x = ([], Returned y)" if "x \<in> set (map ?loc pre)" for x
  proof -
    from that obtain l' where l': "l' \<in> set pre" and x: "x = ?loc l'" by auto
    show ?thesis
    proof (cases "existsSync env (resolve env (localizedPathOf env config fc p l'))")
      case False
      then show ?thesis unfolding x localizedPathOf_def
        using localization_missing[of env ?r p l' fc ?sp] by blast
    next
      case True
      with assms(8) l' obtain keys where
        "getDictionaryCompletion env (optionalKeys fc) ?sp (localizedPathOf env config fc p l') = Inr keys"
        by blast
      then show ?thesis unfolding x using True assms(5)
        by (simp add: localization_def Let_def entryTypeData_def localizedPathOf_def)
    qed
  qed
  have "resumeAll (map ?loc (sort_key (resolvedAt p) (locales config)))
      = ([LogError message], Some 1)"
    unfolding assms(7)
    using resumeAll_first_exit[of "map ?loc pre" "[LogError message]" 1 "map ?loc post"] pre l
    by simp
  then have "awaitAll (resolvedAt p) ?loc (locales config) = ([LogError message], Exited 1)"
    by (simp add: awaitAll_def)
  then have g: "getFileStatus env config (resolvedAt p) p =
           (GitLatestChanges ?sp #
              map (\<lambda>l. GitLatestChanges (localizedPathOf env config fc p l)) (locales config) @
              [LogError message],
            Exited 1)"
    by (simp add: getFileStatus_found[OF assms(4,6)] Let_def)
  then have "exits env config resolvedAt p" by (simp add: exits_def)
  then have "getFullStatus env config completion resolvedAt = Exited 1"
    unfolding getFullStatus_def processFiles_eq[OF assms(1)] using assms(2,3) by auto
  with g show ?thesis by simp
qed

theorem dictionary_error_ends_run_witness:
  "completes dispatch_order
   \<and> example_broken_json \<in> set (files example_broken_config)
   \<and> ''en/broken.json'' \<in> set (sourceFilePaths example_env example_broken_config example_broken_json)
   \<and> sort_key (all_at_once ''en/broken.json'') (locales example_broken_config)
       = [\<lparr>label = ''German'', lang = ''de''\<rparr>] @ \<lparr>label = ''French'', lang = ''fr''\<rparr> # []
   \<and> existsSync example_env (resolve example_env ''de/broken.json'')
   \<and> getDictionaryCompletion example_env (Some [''footer'']) ''en/broken.json'' ''de/broken.json''
       = Inr [''title'']
   \<and> existsSync example_env (resolve example_env ''fr/broken.json'')
   \<and> getDictionaryCompletion example_env (Some [''footer'']) ''en/broken.json'' ''fr/broken.json''
       = Inl (ThrownError ''invalid dictionary'')
   \<and> getFileStatus example_env example_broken_config at_once ''en/broken.json'' =
       ([GitLatestChanges ''en/broken.json'', GitLatestChanges ''de/broken.json'',
         GitLatestChanges ''fr/broken.json'', LogError ''invalid dictionary''], Exited 1)
   \<and> getFullStatus example_env example_broken_config dispatch_order all_at_once = Exited 1
   \<and> ''en/bad.json'' \<in> set (sourceFilePaths example_env example_broken_config example_broken_json)
   \<and> sort_key (all_french_first ''en/bad.json'') (locales example_broken_config)
       = [] @ \<lparr>label = ''French'', lang = ''fr''\<rparr> # [\<lparr>label = ''German'', lang = ''de''\<rparr>]
   \<and> existsSync example_env (resolve example_env ''fr/bad.json'')
   \<and> getDictionaryCompletion example_env (Some [''footer'']) ''en/bad.json'' ''fr/bad.json''
       = Inl (ThrownError ''bad fr'')
   \<and> getDictionaryCompletion example_env (Some [''footer'']) ''en/bad.json'' ''de/bad.json''
       = Inl (ThrownError ''bad de'')
   \<and> getFileStatus example_env example_broken_config french_first ''en/bad.json'' =
       ([GitLatestChanges ''en/bad.json'', GitLatestChanges ''de/bad.json'',
         GitLatestChanges ''fr/bad.json'', LogError ''bad fr''], Exited 1)
   \<and> getFullStatus example_env example_broken_config dispatch_order all_french_first = Exited 1"
proof -
  let ?de = "\<lparr>label = ''German'', lang = ''de''\<rparr>"
  let ?fr = "\<lparr>label = ''French'', lang = ''fr''\<rparr>"
  let ?c = example_broken_config
  let ?j = example_broken_json
  have h2: "?j \<in> set (files ?c)"
    by (simp add: broken_defs)
  have h3: "''en/broken.json'' \<in> set (sourceFilePaths example_env ?c ?j)"
    and h3': "''en/bad.json'' \<in> set (sourceFilePaths example_env ?c ?j)"
    by (simp_all add: broken_defs example_defs sourceFilePaths_def getPathResolver_def)
  have h4: "findFileConfig example_env ?c ''en/broken.json'' = Some ?j"
    and h4': "findFileConfig example_env ?c ''en/bad.json'' = Some ?j"
    by (simp_all add: broken_defs example_defs findFileConfig_def matchesFile_def getPathResolver_def)
  have h5: "type ?j = ''dictionary''"
    by (simp add: broken_defs example_defs)
  have h6: "isFileLocalizable example_env ''en/broken.json''
      (localizableProperty (tracking ?c)) = Inr True"
    and h6': "isFileLocalizable example_env ''en/bad.json''
      (localizableProperty (tracking ?c)) = Inr True"
    by (simp_all add: example_env_def)
  have ls: "locales ?c = [?de, ?fr]"
    by (simp add: broken_defs example_defs)
  have h7: "sort_key (all_at_once ''en/broken.json'') (locales ?c) = [?de] @ ?fr # []"
    unfolding ls by (simp add: all_at_once_def at_once_def)
  have h7': "sort_key (all_french_first ''en/bad.json'') (locales ?c) = [] @ ?fr # [?de]"
    unfolding ls by (simp add: all_french_first_def french_first_def)
  have sp: "sourcePathOf example_env ?c ?j ''en/broken.json'' = ''en/broken.json''"
    and sp': "sourcePathOf example_env ?c ?j ''en/bad.json'' = ''en/bad.json''"
    by (simp_all add: broken_defs example_defs sourcePathOf_def getPathResolver_def)
  have lde: "localizedPathOf example_env ?c ?j ''en/broken.json'' ?de = ''de/broken.json''"
    and lfr: "localizedPathOf example_env ?c ?j ''en/broken.json'' ?fr = ''fr/broken.json''"
    and lde': "localizedPathOf example_env ?c ?j ''en/bad.json'' ?de = ''de/bad.json''"
    and lfr': "localizedPathOf example_env ?c ?j ''en/bad.json'' ?fr = ''fr/bad.json''"
    by (simp_all add: broken_defs example_defs localizedPathOf_def getPathResolver_def)
  have ok: "optionalKeys ?j = Some [''footer'']"
    by (simp add: broken_defs example_defs)
  have xde: "existsSync example_env (resolve example_env ''de/broken.json'')"
    and xfr: "existsSync example_env (resolve example_env ''fr/broken.json'')"
    and xfr': "existsSync example_env (resolve example_env ''fr/bad.json'')"
    by (simp_all add: example_env_def)
  have dde: "getDictionaryCompletion example_env (Some [''footer'']) ''en/broken.json'' ''de/broken.json''
       = Inr [''title'']"
    and dfr: "getDictionaryCompletion example_env (Some [''footer'']) ''en/broken.json'' ''fr/broken.json''
       = Inl (ThrownError ''invalid dictionary'')"
    and dfr': "getDictionaryCompletion example_env (Some [''footer'']) ''en/bad.json'' ''fr/bad.json''
       = Inl (ThrownError ''bad fr'')"
    and dde': "getDictionaryCompletion example_env (Some [''footer'']) ''en/bad.json'' ''de/bad.json''
       = Inl (ThrownError ''bad de'')"
    by (simp_all add: example_env_def)
  have h8: "\<forall>l' \<in> set [?de].
           existsSync example_env (resolve example_env
             (localizedPathOf example_env ?c ?j ''en/broken.json'' l')) \<longrightarrow>
           (\<exists>keys. getDictionaryCompletion example_env (optionalKeys ?j)
               (sourcePathOf example_env ?c ?j ''en/broken.json'')
               (localizedPathOf example_env ?c ?j ''en/broken.json'' l')
               = Inr keys)"
    by (simp add: sp lde ok dde)
  have h8': "\<forall>l' \<in> set [].
           existsSync example_env (resolve example_env
             (localizedPathOf example_env ?c ?j ''en/bad.json'' l')) \<longrightarrow>
           (\<exists>keys. getDictionaryCompletion example_env (optionalKeys ?j)
               (sourcePathOf example_env ?c ?j ''en/bad.json'')
               (localizedPathOf example_env ?c ?j ''en/bad.json'' l')
               = Inr keys)"
    by simp
  have h9: "existsSync example_env (resolve example_env
      (localizedPathOf example_env ?c ?j ''en/broken.json'' ?fr))"
    by (simp add: lfr xfr)
  have h9': "existsSync example_env (resolve example_env
      (localizedPathOf example_env ?c ?j ''en/bad.json'' ?fr))"
    by (simp add: lfr' xfr')
  have h10: "getDictionaryCompletion example_env (optionalKeys ?j)
      (sourcePathOf example_env ?c ?j ''en/broken.json'')
      (localizedPathOf example_env ?c ?j ''en/broken.json'' ?fr)
      = Inl (ThrownError ''invalid dictionary'')"
    by (simp add: sp lfr ok dfr)
  have h10': "getDictionaryCompletion example_env (optionalKeys ?j)
      (sourcePathOf example_env ?c ?j ''en/bad.json'')
      (localizedPathOf example_env ?c ?j ''en/bad.json'' ?fr)
      = Inl (ThrownError ''bad fr'')"
    by (simp add: sp' lfr' ok dfr')
  note t = dictionary_error_ends_run[where resolvedAt = all_at_once and p = "''en/broken.json''",
      OF completes_dispatch_order h2 h3 h4 h5 h6 h7 h8 h9 h10]
  note t' = dictionary_error_ends_run[where resolvedAt = all_french_first and p = "''en/bad.json''",
      OF completes_dispatch_order h2 h3' h4' h5 h6' h7' h8' h9' h10']
  have m: "map (\<lambda>l. GitLatestChanges (localizedPathOf example_env ?c ?j ''en/broken.json'' l))
            (locales ?c)
       = [GitLatestChanges ''de/broken.json'', GitLatestChanges ''fr/broken.json'']"
    unfolding ls by (simp add: lde lfr)
  have m': "map (\<lambda>l. GitLatestChanges (localizedPathOf example_env ?c ?j ''en/bad.json'' l))
            (locales ?c)
       = [GitLatestChanges ''de/bad.json'', GitLatestChanges ''fr/bad.json'']"
    unfolding ls by (simp add: lde' lfr')
  from t sp m have r: "getFileStatus example_env ?c at_once ''en/broken.json'' =
       ([GitLatestChanges ''en/broken.json'', GitLatestChanges ''de/broken.json'',
         GitLatestChanges ''fr/broken.json'', LogError ''invalid dictionary''], Exited 1)
     \<and> getFullStatus example_env ?c dispatch_order all_at_once = Exited 1"
    by (simp add: all_at_once_def)
  from t' sp' m' have r': "getFileStatus example_env ?c french_first ''en/bad.json'' =
       ([GitLatestChanges ''en/bad.json'', GitLatestChanges ''de/bad.json'',
         GitLatestChanges ''fr/bad.json'', LogError ''bad fr''], Exited 1)
     \<and> getFullStatus example_env ?c dispatch_order all_french_first = Exited 1"
    by (simp add: all_french_first_def)
  show ?thesis
    using completes_dispatch_order h2 h3 h7 xde dde xfr dfr r h3' h7' xfr' dfr' dde' r'
    by blast
qed

text \<open>
  Claim C6 says that no two entries of a report have the same source path, also when
  the \<open>include\<close> globs of the \<open>files\<close> entries overlap. With \<open>en/a.md\<close> included by two
  entries, the report has two entries for \<open>en/a.md\<close>.
\<close>

theorem overlapping_groups_duplicate_counterexample:
  "sourcePaths (getFullStatus example_env example_overlap_config dispatch_order all_at_once)
     = Some [''en/a.md'', ''en/b.md'', ''en/a.md'']"
  by (simp add: example_overlap_config_def example_defs full_defs run_defs)

text \<open>
  Claim C6, amended. No two entries of a report have the same source path, provided
  that no path is kept twice (\<open>glob\<close> returns no path twice for a \<open>files\<close> entry and no
  path is kept for two entries) and that every kept path matches, in source form, the
  pattern of the \<open>files\<close> entry that \<open>findFileConfig\<close> selects for it.
\<close>

theorem report_sources_distinct:
  assumes "completes completion"
    and "distinct (concat (map (sourceFilePaths env config) (files config)))"
    and "\<forall>grp \<in> set (files config). \<forall>p \<in> set (sourceFilePaths env config grp). \<forall>fc.
           findFileConfig env config p = Some fc \<longrightarrow>
           isSourcePathMatch (getPathResolver env config (pattern fc)) p"
    and "sourcePaths (getFullStatus env config completion resolvedAt) = Some ps"
  shows "distinct ps"
proof -
  from assms(4) obtain report where r: "getFullStatus env config completion resolvedAt = Returned report"
    and ps: "ps = map (\<lambda>e. status_source.path (source e)) report"
    by (cases "getFullStatus env config completion resolvedAt") auto
  from r have "report = reported env config completion resolvedAt 0 (files config)"
    unfolding getFullStatus_def processFiles_eq[OF assms(1)] by (simp split: if_splits)
  then show ?thesis
    unfolding ps using reported_source_paths[OF assms(1,3), where g = 0] assms(2) by simp
qed

theorem report_sources_distinct_witness:
  "completes dispatch_order
   \<and> distinct (concat (map (sourceFilePaths example_env example_config) (files example_config)))
   \<and> sourcePaths (getFullStatus example_env example_config dispatch_order all_at_once)
       = Some [''en/a.md'', ''en/b.md'', ''en/ui.json'']
   \<and> distinct [''en/a.md'', ''en/b.md'', ''en/ui.json'']"
proof -
  have h2: "distinct (concat (map (sourceFilePaths example_env example_config) (files example_config)))"
    by (simp add: example_defs sourceFilePaths_def getPathResolver_def)
  have h3: "\<forall>grp \<in> set (files example_config).
      \<forall>p \<in> set (sourceFilePaths example_env example_config grp). \<forall>fc.
           findFileConfig example_env example_config p = Some fc \<longrightarrow>
           isSourcePathMatch (getPathResolver example_env example_config (pattern fc)) p"
    by (simp add: example_defs sourceFilePaths_def findFileConfig_def matchesFile_def getPathResolver_def)
  have h4: "sourcePaths (getFullStatus example_env example_config dispatch_order all_at_once)
       = Some [''en/a.md'', ''en/b.md'', ''en/ui.json'']"
    by (simp add: example_defs full_defs run_defs)
  from report_sources_distinct[OF completes_dispatch_order h2 h3 h4]
  show ?thesis using completes_dispatch_order h2 h4 by blast
qed

text \<open>
  Claim C2 says that the order of the report is the sorted order in which the paths were
  dispatched, whatever the order in which the callbacks finish, so that two runs over the
  same files and history give the same report. Each callback of \<open>getFullStatus\<close> pushes
  its result when its own \<open>getFileStatus\<close> has finished. On the small repository the
  paths of the first \<open>files\<close> entry are dispatched as \<open>en/a.md\<close>, \<open>en/b.md\<close>; a run in
  which \<open>en/b.md\<close> finishes first reports \<open>en/b.md\<close> before \<open>en/a.md\<close>, and differs
  from the run in which the callbacks finish in dispatch order.
\<close>

theorem completion_order_decides_report_order:
  "sort (sourceFilePaths example_env example_config example_md) = [''en/a.md'', ''en/b.md'']
   \<and> completes dispatch_order \<and> completes reverse_order
   \<and> sourcePaths (getFullStatus example_env example_config dispatch_order all_at_once)
       = Some [''en/a.md'', ''en/b.md'', ''en/ui.json'']
   \<and> sourcePaths (getFullStatus example_env example_config reverse_order all_at_once)
       = Some [''en/b.md'', ''en/a.md'', ''en/ui.json'']
   \<and> getFullStatus example_env example_config reverse_order all_at_once
       \<noteq> getFullStatus example_env example_config dispatch_order all_at_once"
proof -
  have a: "sort (sourceFilePaths example_env example_config example_md) = [''en/a.md'', ''en/b.md'']"
    by (simp add: example_defs sourceFilePaths_def getPathResolver_def)
  have b: "sourcePaths (getFullStatus example_env example_config dispatch_order all_at_once)
       = Some [''en/a.md'', ''en/b.md'', ''en/ui.json'']"
    by (simp add: example_defs full_defs run_defs)
  have c: "sourcePaths (getFullStatus example_env example_config reverse_order all_at_once)
       = Some [''en/b.md'', ''en/a.md'', ''en/ui.json'']"
    by (simp add: example_defs full_defs run_defs)
  have "sourcePaths (getFullStatus example_env example_config reverse_order all_at_once)
       \<noteq> sourcePaths (getFullStatus example_env example_config dispatch_order all_at_once)"
    unfolding b c by simp
  then have d: "getFullStatus example_env example_config reverse_order all_at_once
       \<noteq> getFullStatus example_env example_config dispatch_order all_at_once" by auto
  show ?thesis using a b c d completes_dispatch_order completes_reverse_order by blast
qed

end
